theory Spec2Isabelle
  imports Main
begin

section \<open>JavaScript values\<close>

text \<open>
  The formatter of \<^verbatim>\<open>src/core.js\<close> is modelled function by function. Diff counts,
  thresholds and time values are integers, as the spec has them; JavaScript strings are
  \<^typ>\<open>string\<close>, objects used as dictionaries are partial maps, and a \<^verbatim>\<open>throw\<close> is the
  left injection of a sum.
\<close>

text \<open>
  The values an argument of this code can be. A number is given by what the code can
  observe of it: whether it is truthy (it is not for 0 and NaN) and its string
  conversion (\<open>0\<close>, \<open>5\<close>, \<open>0.5\<close>, \<open>1e+21\<close>, \<open>NaN\<close>, and so on). \<open>JArr\<close> is an array,
  \<open>JObj\<close> an object with no properties of its own.
\<close>

datatype js_value =
    JUndefined
  | JNull
  | JBool bool
  | JNum bool string
  | JStr string
  | JArr "js_value list"
  | JObj

text \<open>JavaScript truthiness, as used by \<^verbatim>\<open>!x\<close>, \<^verbatim>\<open>x && y\<close> and \<^verbatim>\<open>x || y\<close>.\<close>

fun truthy :: "js_value \<Rightarrow> bool" where
  "truthy JUndefined = False"
| "truthy JNull = False"
| "truthy (JBool b) = b"
| "truthy (JNum t text) = t"
| "truthy (JStr s) = (s \<noteq> [])"
| "truthy (JArr xs) = True"
| "truthy JObj = True"

text \<open>\<^verbatim>\<open>xs.join(sep)\<close> on an array of strings.\<close>

fun join :: "string \<Rightarrow> string list \<Rightarrow> string" where
  "join sep [] = []"
| "join sep [x] = x"
| "join sep (x # y # ys) = x @ sep @ join sep (y # ys)"

text \<open>
  String conversion, as string concatenation, a regular expression test and a property
  access apply it. An array is the texts of its elements joined by commas, where
  \<^verbatim>\<open>null\<close> and \<^verbatim>\<open>undefined\<close> elements give the empty text.
\<close>

fun to_string :: "js_value \<Rightarrow> string" where
  "to_string JUndefined = ''undefined''"
| "to_string JNull = ''null''"
| "to_string (JBool b) = (if b then ''true'' else ''false'')"
| "to_string (JNum t text) = text"
| "to_string (JStr s) = s"
| "to_string (JArr xs) =
     join '','' (map (\<lambda>x. if x = JUndefined \<or> x = JNull then [] else to_string x) xs)"
| "to_string JObj = ''[object Object]''"

text \<open>The decimal text of an integer, for the example evaluator below.\<close>

definition digit_char :: "nat \<Rightarrow> char" where
  "digit_char n = char_of (48 + n)"

fun nat_to_string :: "nat \<Rightarrow> string" where
  "nat_to_string n =
     (if n < 10 then [digit_char n]
      else nat_to_string (n div 10) @ [digit_char (n mod 10)])"

declare nat_to_string.simps [simp del]

definition int_to_string :: "int \<Rightarrow> string" where
  "int_to_string i =
     (if i < 0 then CHR ''-'' # nat_to_string (nat (- i)) else nat_to_string (nat i))"

section \<open>Unit priority and unit selection\<close>

definition PRIORITY :: "string list" where
  "PRIORITY = [''second'', ''minute'', ''hour'', ''day'', ''month'', ''year'']"

text \<open>
  Modelled from the spec: the diff collaborator (\<^verbatim>\<open>./diff\<close>) is not among the
  sources. Its result, the diff report, maps every unit name to a signed integer.
\<close>

type_synonym diffReport = "string \<Rightarrow> int"

text \<open>The threshold table is a mutable object; a unit without an entry reads as
  \<^verbatim>\<open>undefined\<close>, and every comparison with it is false.\<close>

type_synonym thresholds = "string \<rightharpoonup> int"

definition default_thresholds :: thresholds where
  "default_thresholds =
     [''second'' \<mapsto> 45, ''minute'' \<mapsto> 45, ''hour'' \<mapsto> 22, ''day'' \<mapsto> 26, ''month'' \<mapsto> 11]"

text \<open>The loop test \<^verbatim>\<open>Math.abs(diffReport[units]) < RelativeFormat.thresholds[units]\<close>.\<close>

definition below_threshold :: "thresholds \<Rightarrow> diffReport \<Rightarrow> string \<Rightarrow> bool" where
  "below_threshold th d u = (case th u of None \<Rightarrow> False | Some t \<Rightarrow> \<bar>d u\<bar> < t)"

text \<open>
  The \<^verbatim>\<open>for\<close> loop of \<^verbatim>\<open>_selectUnits\<close> over the rest of the priority list: each
  round assigns \<^verbatim>\<open>units\<close> and breaks when the test holds; the variable is returned
  as the loop left it (\<^verbatim>\<open>undefined\<close> when no round ran).
\<close>

fun selectUnits_loop :: "thresholds \<Rightarrow> diffReport \<Rightarrow> string list \<Rightarrow> js_value \<Rightarrow> js_value" where
  "selectUnits_loop th d [] units = units"
| "selectUnits_loop th d (u # us) units =
     (if below_threshold th d u then JStr u else selectUnits_loop th d us (JStr u))"

definition selectUnits :: "thresholds \<Rightarrow> diffReport \<Rightarrow> js_value" where
  "selectUnits th d = selectUnits_loop th d PRIORITY JUndefined"

section \<open>Strings: case, subtags and the two regular expressions\<close>

definition to_lower :: "char \<Rightarrow> char" where
  "to_lower c = (let n = (of_char c :: nat) in if 65 \<le> n \<and> n \<le> 90 then char_of (n + 32) else c)"

text \<open>\<^verbatim>\<open>s.toLowerCase()\<close>, on ASCII strings.\<close>

definition toLowerCase :: "string \<Rightarrow> string" where
  "toLowerCase s = map to_lower s"

text \<open>\<^verbatim>\<open>s.split('-')[0]\<close>: the text before the first hyphen (all of it when there is none).\<close>

definition first_subtag :: "string \<Rightarrow> string" where
  "first_subtag s = takeWhile (\<lambda>c. c \<noteq> CHR ''-'') s"

definition is_az :: "char \<Rightarrow> bool" where
  "is_az c = (let n = (of_char c :: nat) in 97 \<le> n \<and> n \<le> 122)"

text \<open>
  \<^verbatim>\<open>/[a-z]{2,3}/.test(s)\<close>. The expression has no anchors, so the test looks for a match
  starting at any position of the string; a match exists at a position when at least two
  letters of a to z stand there.
\<close>

fun structurally_valid :: "string \<Rightarrow> bool" where
  "structurally_valid [] = False"
| "structurally_valid (c # cs) =
     (2 \<le> length (takeWhile is_az (c # cs)) \<or> structurally_valid cs)"

text \<open>The spec's pattern for a locale key, for comparison with the test above: a string
  of two to three letters.\<close>

definition two_to_three_letters :: "string \<Rightarrow> bool" where
  "two_to_three_letters s = ((length s = 2 \<or> length s = 3) \<and> list_all is_az s)"

text \<open>\<^verbatim>\<open>/s$/.test(s)\<close>: the last character is an s.\<close>

definition ends_with_s :: "string \<Rightarrow> bool" where
  "ends_with_s s = (s \<noteq> [] \<and> last s = CHR ''s'')"

text \<open>\<^verbatim>\<open>s.replace(pat, rep)\<close> with a string pattern: the first occurrence only.\<close>

fun replace_first :: "string \<Rightarrow> string \<Rightarrow> string \<Rightarrow> string" where
  "replace_first pat rep [] = (if pat = [] then rep else [])"
| "replace_first pat rep (c # cs) =
     (if take (length pat) (c # cs) = pat then rep @ drop (length pat) (c # cs)
      else c # replace_first pat rep cs)"

section \<open>Errors\<close>

text \<open>
  One constructor for each kind of \<^verbatim>\<open>throw\<close> of the source, carrying the message, named
  as the spec names the failure; \<open>RuntimeTypeError\<close> is the engine's own TypeError on a
  property read of \<^verbatim>\<open>undefined\<close>, and \<open>MessageFormatError\<close> a failure inside the
  message format library.
\<close>

datatype error =
    InvalidLocaleData string
  | MalformedLocaleTag string
  | UnsupportedLocale string
  | InvalidUnit string
  | InvalidDate string
  | RuntimeTypeError
  | MessageFormatError string

definition dq :: string where
  "dq = [CHR 0x22]"

definition bq :: string where
  "bq = [CHR 0x60]"

definition sq :: string where
  "sq = [CHR 0x27]"

definition msg_no_locale :: string where
  "msg_no_locale = ''Locale data provided to IntlRelativeFormat does not contain a ''
     @ bq @ ''locale'' @ bq @ '' property''"

definition msg_no_fields :: string where
  "msg_no_fields = ''Locale data provided to IntlRelativeFormat does not contain a ''
     @ bq @ ''fields'' @ bq @ '' property''"

definition msg_invalid_date :: string where
  "msg_invalid_date = ''A Date must be provided to a IntlRelativeFormat instance'' @ sq @ ''s ''
     @ bq @ ''format()'' @ bq @ '' function''"

definition msg_did_you_mean :: "string \<Rightarrow> string \<Rightarrow> string" where
  "msg_did_you_mean units suggestion =
     dq @ units @ dq @ '' is not a valid IntlRelativeFormat '' @ bq @ ''units'' @ bq
       @ '' value, did you mean: '' @ suggestion"

definition msg_must_be_one_of :: "string \<Rightarrow> string" where
  "msg_must_be_one_of units =
     dq @ units @ dq @ '' is not a valid IntlRelativeFormat '' @ bq @ ''units'' @ bq
       @ '' value, it must be one of: '' @ join '', '' PRIORITY"

definition msg_not_valid_tag :: "string \<Rightarrow> string" where
  "msg_not_valid_tag loc =
     ''Language tag provided to IntlRelativeFormat is not structrually valid: '' @ loc"

definition msg_no_locale_data :: "string list \<Rightarrow> string" where
  "msg_no_locale_data tags =
     ''No locale data has been added to IntlRelativeFormat for: '' @ join '', '' tags"

section \<open>Locale data and the process-wide state\<close>

text \<open>
  A field's \<^verbatim>\<open>relativeTime.future\<close> and \<^verbatim>\<open>relativeTime.past\<close> objects are association
  lists in property order (\<^verbatim>\<open>for ... in\<close> visits them in that order; an absent object
  is the empty list, which the loop treats alike). \<^verbatim>\<open>relative\<close> is optional.
\<close>

record relativeTime =
  rt_future :: "(string \<times> string) list"
  rt_past :: "(string \<times> string) list"

record field =
  f_relative :: "(int \<rightharpoonup> string) option"
  f_relativeTime :: "relativeTime option"

record locale_data =
  ld_locale :: "string option"
  ld_fields :: "(string \<rightharpoonup> field) option"

text \<open>The \<^verbatim>\<open>locales\<close> argument of the constructor, and the value of
  \<^verbatim>\<open>RelativeFormat.defaultLocale\<close>: absent, one tag, or an array of tags.\<close>

datatype locales = LUndefined | LString string | LArray "string list"

fun locales_truthy :: "locales \<Rightarrow> bool" where
  "locales_truthy LUndefined = False"
| "locales_truthy (LString s) = (s \<noteq> [])"
| "locales_truthy (LArray ts) = True"

text \<open>The properties of the constructor function \<^verbatim>\<open>RelativeFormat\<close>:
  \<^verbatim>\<open>__availableLocales__\<close>, \<^verbatim>\<open>__localeData__\<close>, \<^verbatim>\<open>defaultLocale\<close>, \<^verbatim>\<open>thresholds\<close>.\<close>

record global =
  availableLocales :: "string list"
  localeData :: "string \<rightharpoonup> locale_data"
  defaultLocale :: locales
  thresholds :: thresholds

section \<open>Locale resolution\<close>

text \<open>The locale key of a tag, \<^verbatim>\<open>tag.split('-')[0].toLowerCase()\<close>.\<close>

definition localeKey :: "string \<Rightarrow> string" where
  "localeKey t = toLowerCase (first_subtag t)"

text \<open>
  The \<^verbatim>\<open>for\<close> loop of \<^verbatim>\<open>_resolveLocale\<close> over the rest of the array; \<open>tags\<close> is the
  whole array, for the message of the final \<^verbatim>\<open>throw\<close>.
\<close>

fun resolveLocale_loop :: "string list \<Rightarrow> string list \<Rightarrow> string list \<Rightarrow> error + string" where
  "resolveLocale_loop avail tags [] = Inl (UnsupportedLocale (msg_no_locale_data tags))"
| "resolveLocale_loop avail tags (t # ts) =
     (let loc = localeKey t in
      if \<not> structurally_valid loc then Inl (MalformedLocaleTag (msg_not_valid_tag loc))
      else if loc \<in> set avail then Inr loc
      else resolveLocale_loop avail tags ts)"

definition resolveLocale :: "global \<Rightarrow> locales \<Rightarrow> error + string" where
  "resolveLocale g locales0 =
     (let locales1 = (if \<not> locales_truthy locales0 then defaultLocale g else locales0);
          locales2 = (case locales1 of LString s \<Rightarrow> LArray [s] | l \<Rightarrow> l)
      in case locales2 of
           LArray tags \<Rightarrow> resolveLocale_loop (availableLocales g) tags tags
         | _ \<Rightarrow> Inl RuntimeTypeError)"

section \<open>Unit validation and construction\<close>

text \<open>\<^verbatim>\<open>PRIORITY.indexOf(v) >= 0\<close>: strict equality, so only a string can be found.\<close>

fun in_PRIORITY :: "js_value \<Rightarrow> bool" where
  "in_PRIORITY (JStr s) = (s \<in> set PRIORITY)"
| "in_PRIORITY v = False"

text \<open>
  \<^verbatim>\<open>_isValidUnits\<close> returns true or throws. The suggestion is computed by the string
  method \<^verbatim>\<open>substring\<close>, which only a string has.
\<close>

definition isValidUnits :: "js_value \<Rightarrow> error + bool" where
  "isValidUnits units =
     (if in_PRIORITY units then Inr True
      else if ends_with_s (to_string units) then
        (case units of
           JStr s \<Rightarrow>
             (let suggestion = butlast s in
              if suggestion \<noteq> [] \<and> suggestion \<in> set PRIORITY
              then Inl (InvalidUnit (msg_did_you_mean s suggestion))
              else Inl (InvalidUnit (msg_must_be_one_of s)))
         | _ \<Rightarrow> Inl RuntimeTypeError)
      else Inl (InvalidUnit (msg_must_be_one_of (to_string units))))"

text \<open>
  The state of one formatter: \<^verbatim>\<open>_locale\<close>, \<^verbatim>\<open>_messages\<close> (the cache of compiled
  messages, by unit) and \<^verbatim>\<open>_units\<close> (\<^verbatim>\<open>undefined\<close> unless the constructor defined it).
  The constructor defines the three with \<^verbatim>\<open>defineProperty\<close> and a value only, so none of
  them is assigned again; the cache object itself is written by \<^verbatim>\<open>_resolveMessage\<close>.
  \<open>'m\<close> is the type of compiled messages.
\<close>

record 'm formatter =
  inst_locale :: string
  inst_messages :: "string \<rightharpoonup> 'm"
  inst_units :: js_value

record options =
  opt_units :: js_value

text \<open>The constructor; \<open>None\<close> is an absent \<^verbatim>\<open>options\<close> argument.\<close>

definition RelativeFormat :: "global \<Rightarrow> locales \<Rightarrow> options option \<Rightarrow> error + 'm formatter" where
  "RelativeFormat g locales0 options0 =
     (let opts = (case options0 of None \<Rightarrow> \<lparr>opt_units = JUndefined\<rparr> | Some o1 \<Rightarrow> o1) in
      case resolveLocale g locales0 of
        Inl e \<Rightarrow> Inl e
      | Inr loc \<Rightarrow>
          (let this = \<lparr>inst_locale = loc, inst_messages = Map.empty, inst_units = JUndefined\<rparr> in
           if truthy (opt_units opts) then
             (case isValidUnits (opt_units opts) of
                Inl e \<Rightarrow> Inl e
              | Inr ok \<Rightarrow> if ok then Inr (this\<lparr>inst_units := opt_units opts\<rparr>) else Inr this)
           else Inr this))"

record resolved_options =
  ro_locale :: string
  ro_units :: js_value

definition resolvedOptions :: "'m formatter \<Rightarrow> resolved_options" where
  "resolvedOptions this = \<lparr>ro_locale = inst_locale this, ro_units = inst_units this\<rparr>"

section \<open>Exact phrases, message synthesis and formatting\<close>

text \<open>
  Modelled from the spec: the collaborators that are not among the sources. \<open>diff\<close> is
  \<^verbatim>\<open>diff(from, to)\<close> on two time values, \<open>compile\<close> is the constructor of the message
  format library on a pattern and a locale, \<open>evaluate\<close> is the compiled message's
  \<^verbatim>\<open>format\<close> on the magnitude and the direction, and \<open>libraryAddLocaleData\<close> is the
  library's \<^verbatim>\<open>IntlMessageFormat.__addLocaleData\<close>, which returns (\<open>None\<close>) or throws.
\<close>

record 'm collab =
  diff :: "int \<Rightarrow> int \<Rightarrow> diffReport"
  compile :: "string \<Rightarrow> string \<Rightarrow> error + 'm"
  evaluate :: "'m \<Rightarrow> int \<Rightarrow> string \<Rightarrow> error + string"
  libraryAddLocaleData :: "locale_data \<Rightarrow> error option"

text \<open>
  \<^verbatim>\<open>RelativeFormat.__addLocaleData(data)\<close>; \<open>None\<close> is an absent argument. The two checks
  come first, then the call that hands the data on to the library, and only when that
  call returns is the data registered: the key is appended to the list of available
  locales and the data of the key overwritten.
\<close>

definition addLocaleData :: "'m collab \<Rightarrow> global \<Rightarrow> locale_data option \<Rightarrow> error + global" where
  "addLocaleData c g data0 =
     (case data0 of
        None \<Rightarrow> Inl (InvalidLocaleData msg_no_locale)
      | Some data \<Rightarrow>
          (case ld_locale data of
             None \<Rightarrow> Inl (InvalidLocaleData msg_no_locale)
           | Some tag \<Rightarrow>
               if tag = [] then Inl (InvalidLocaleData msg_no_locale)
               else
                 (case ld_fields data of
                    None \<Rightarrow> Inl (InvalidLocaleData msg_no_fields)
                  | Some fs \<Rightarrow>
                      (case libraryAddLocaleData c data of
                         Some e \<Rightarrow> Inl e
                       | None \<Rightarrow>
                           (let loc = first_subtag (toLowerCase tag) in
                            Inr (g\<lparr>availableLocales := availableLocales g @ [loc],
                                   localeData := (localeData g)(loc \<mapsto> data)\<rparr>))))))"

text \<open>\<^verbatim>\<open>RelativeFormat.__localeData__[this._locale].fields[units]\<close>: reading a property
  of \<^verbatim>\<open>undefined\<close> throws; the result may itself be \<^verbatim>\<open>undefined\<close>.\<close>

definition lookup_field :: "global \<Rightarrow> 'm formatter \<Rightarrow> string \<Rightarrow> error + field option" where
  "lookup_field g this units =
     (case localeData g (inst_locale this) of
        None \<Rightarrow> Inl RuntimeTypeError
      | Some data \<Rightarrow>
          (case ld_fields data of
             None \<Rightarrow> Inl RuntimeTypeError
           | Some fs \<Rightarrow> Inr (fs units)))"

text \<open>\<^verbatim>\<open>_resolveRelativeUnits\<close>: \<open>None\<close> is \<^verbatim>\<open>undefined\<close>.\<close>

definition resolveRelativeUnits :: "global \<Rightarrow> 'm formatter \<Rightarrow> int \<Rightarrow> string \<Rightarrow> error + string option" where
  "resolveRelativeUnits g this d units =
     (case lookup_field g this units of
        Inl e \<Rightarrow> Inl e
      | Inr None \<Rightarrow> Inl RuntimeTypeError
      | Inr (Some fld) \<Rightarrow>
          (case f_relative fld of
             None \<Rightarrow> Inr None
           | Some rel \<Rightarrow> Inr (rel d)))"

text \<open>One round of the two \<^verbatim>\<open>for ... in\<close> loops of \<^verbatim>\<open>_resolveMessage\<close>, folded over the
  entries.\<close>

fun plural_options :: "(string \<times> string) list \<Rightarrow> string \<Rightarrow> string" where
  "plural_options [] acc = acc"
| "plural_options ((i, phrase) # rest) acc =
     plural_options rest
       (acc @ '' '' @ i @ '' {'' @ replace_first ''{0}'' ''#'' phrase @ ''}'')"

definition synthesize :: "relativeTime \<Rightarrow> string" where
  "synthesize rt =
     ''{when, select, future {{0, plural, '' @ plural_options (rt_future rt) [] @ ''}}''
       @ ''past {{0, plural, '' @ plural_options (rt_past rt) [] @ ''}}}''"

text \<open>\<^verbatim>\<open>_resolveMessage\<close>: returns the compiled message and the formatter, whose cache
  holds the message afterwards.\<close>

definition resolveMessage ::
  "'m collab \<Rightarrow> global \<Rightarrow> 'm formatter \<Rightarrow> string \<Rightarrow> error + ('m \<times> 'm formatter)" where
  "resolveMessage c g this units =
     (case inst_messages this units of
        Some m \<Rightarrow> Inr (m, this)
      | None \<Rightarrow>
          (case lookup_field g this units of
             Inl e \<Rightarrow> Inl e
           | Inr None \<Rightarrow> Inl RuntimeTypeError
           | Inr (Some fld) \<Rightarrow>
               (case f_relativeTime fld of
                  None \<Rightarrow> Inl RuntimeTypeError
                | Some rt \<Rightarrow>
                    (case compile c (synthesize rt) (inst_locale this) of
                       Inl e \<Rightarrow> Inl e
                     | Inr m \<Rightarrow>
                         Inr (m, this\<lparr>inst_messages := (inst_messages this)(units \<mapsto> m)\<rparr>)))))"

text \<open>\<^verbatim>\<open>this._units || this._selectUnits(diffReport)\<close>.\<close>

definition format_units :: "global \<Rightarrow> 'm formatter \<Rightarrow> diffReport \<Rightarrow> js_value" where
  "format_units g this diffReport =
     (if truthy (inst_units this) then inst_units this
      else selectUnits (thresholds g) diffReport)"

text \<open>The pluralized path of \<^verbatim>\<open>_format\<close>: the last two statements.\<close>

definition format_message ::
  "'m collab \<Rightarrow> global \<Rightarrow> 'm formatter \<Rightarrow> string \<Rightarrow> int \<Rightarrow> (error + string) \<times> 'm formatter" where
  "format_message c g this units diffInUnits =
     (case resolveMessage c g this units of
        Inl e \<Rightarrow> (Inl e, this)
      | Inr (msg, this') \<Rightarrow>
          (evaluate c msg \<bar>diffInUnits\<bar> (if diffInUnits < 0 then ''past'' else ''future''),
           this'))"

text \<open>
  \<^verbatim>\<open>_format\<close>. \<open>now\<close> is the clock's time value, \<open>date\<close> the time value of
  \<^verbatim>\<open>new Date(date)\<close> (\<open>None\<close> is NaN, an invalid date). The result is what the call
  returns or throws, and the formatter as the call leaves it.
\<close>

definition format ::
  "'m collab \<Rightarrow> global \<Rightarrow> 'm formatter \<Rightarrow> int \<Rightarrow> int option \<Rightarrow> (error + string) \<times> 'm formatter" where
  "format c g this now date =
     (case date of
        None \<Rightarrow> (Inl (InvalidDate msg_invalid_date), this)
      | Some t \<Rightarrow>
          if t = 0 then (Inl (InvalidDate msg_invalid_date), this)
          else
            (let diffReport = diff c now t;
                 units = to_string (format_units g this diffReport);
                 diffInUnits = diffReport units
             in case resolveRelativeUnits g this diffInUnits units of
                  Inl e \<Rightarrow> (Inl e, this)
                | Inr None \<Rightarrow> format_message c g this units diffInUnits
                | Inr (Some relativeUnits) \<Rightarrow>
                    if relativeUnits \<noteq> [] then (Inr relativeUnits, this)
                    else format_message c g this units diffInUnits))"

text \<open>The state of the formatter after a sequence of \<^verbatim>\<open>format\<close> calls, each with the
  process-wide state, the clock and the date of its moment.\<close>

fun format_calls :: "'m collab \<Rightarrow> (global \<times> int \<times> int option) list \<Rightarrow> 'm formatter \<Rightarrow> 'm formatter" where
  "format_calls c [] this = this"
| "format_calls c ((g, now, date) # calls) this =
     format_calls c calls (snd (format c g this now date))"

section \<open>Example data\<close>

text \<open>
  Data for the concrete evaluations: English phrases for the unit \<open>day\<close>, a process-wide
  state in which only \<open>en\<close> is registered, and stand-ins for the collaborators (a diff
  that counts whole days and seconds, a compiler that keeps the pattern and the locale,
  an evaluator that prints the magnitude and the direction, a library that takes every
  locale data).
\<close>

definition example_relativeTime :: relativeTime where
  "example_relativeTime =
     \<lparr>rt_future = [(''one'', ''in {0} day''), (''other'', ''in {0} days'')],
      rt_past = [(''one'', ''{0} day ago''), (''other'', ''{0} days ago'')]\<rparr>"

definition example_day :: field where
  "example_day =
     \<lparr>f_relative = Some [0 \<mapsto> ''today'', 1 \<mapsto> ''tomorrow'', - 1 \<mapsto> ''yesterday''],
      f_relativeTime = Some example_relativeTime\<rparr>"

definition example_data :: locale_data where
  "example_data = \<lparr>ld_locale = Some ''en-US'', ld_fields = Some [''day'' \<mapsto> example_day]\<rparr>"

definition example_global :: global where
  "example_global =
     \<lparr>availableLocales = [''en''], localeData = [''en'' \<mapsto> example_data],
      defaultLocale = LString ''en-US'', thresholds = default_thresholds\<rparr>"

text \<open>The same locale with an empty phrase for the offset 0 of \<open>day\<close>.\<close>

definition blank_data :: locale_data where
  "blank_data =
     \<lparr>ld_locale = Some ''en-US'',
      ld_fields = Some [''day'' \<mapsto> example_day\<lparr>f_relative := Some [0 \<mapsto> []]\<rparr>]\<rparr>"

definition blank_global :: global where
  "blank_global = example_global\<lparr>localeData := [''en'' \<mapsto> blank_data]\<rparr>"

definition example_collab :: "(string \<times> string) collab" where
  "example_collab =
     \<lparr>diff = (\<lambda>from to u. if u = ''day'' then (to - from) div 86400000 else (to - from) div 1000),
      compile = (\<lambda>pattern loc. Inr (pattern, loc)),
      evaluate = (\<lambda>msg n direction. Inr (int_to_string n @ '' '' @ direction)),
      libraryAddLocaleData = (\<lambda>data. None)\<rparr>"

text \<open>A message format library that fails on every call.\<close>

definition failing_collab :: "(string \<times> string) collab" where
  "failing_collab =
     example_collab\<lparr>compile := (\<lambda>pattern loc. Inl (MessageFormatError ''compile'')),
                     evaluate := (\<lambda>msg n direction. Inl (MessageFormatError ''format''))\<rparr>"

text \<open>A formatter of locale \<open>en\<close> pinned to \<open>day\<close>, with an empty cache.\<close>

definition day_formatter :: "(string \<times> string) formatter" where
  "day_formatter = \<lparr>inst_locale = ''en'', inst_messages = Map.empty, inst_units = JStr ''day''\<rparr>"

section \<open>Unit selection: the first unit under its threshold\<close>

lemma selectUnits_loop_find:
  "selectUnits_loop th d us units =
     (case find (below_threshold th d) us of
        Some u \<Rightarrow> JStr u
      | None \<Rightarrow> (if us = [] then units else JStr (last us)))"
  by (induction us arbitrary: units) (auto split: option.split)

lemma selectUnits_find:
  "selectUnits th d =
     JStr (case find (below_threshold th d) PRIORITY of Some u \<Rightarrow> u | None \<Rightarrow> ''year'')"
  by (simp add: selectUnits_def selectUnits_loop_find PRIORITY_def split: option.split)

lemma find_skip_failed:
  "list_all (\<lambda>v. \<not> P v) pre \<Longrightarrow> \<not> P u \<Longrightarrow> find P (pre @ u # post) = find P post"
  by (induction pre) auto

lemma find_Some_member: "find P xs = Some x \<Longrightarrow> x \<in> set xs \<and> P x"
  by (induction xs) (auto split: if_splits)

lemma find_None_all: "find P xs = None \<longleftrightarrow> list_all (\<lambda>v. \<not> P v) xs"
  by (induction xs) auto

lemma at_threshold_not_below:
  "th u = Some t \<Longrightarrow> \<bar>d u\<bar> = t \<Longrightarrow> \<not> below_threshold th d u"
  by (simp add: below_threshold_def)

lemma last_PRIORITY: "last PRIORITY = ''year''"
  by (simp add: PRIORITY_def)

lemma selectUnits_not_at_threshold:
  assumes "u \<noteq> ''year''" "th u = Some t" "\<bar>d u\<bar> = t"
  shows "selectUnits th d \<noteq> JStr u"
proof (cases "find (below_threshold th d) PRIORITY")
  case None
  then show ?thesis using assms(1) by (simp add: selectUnits_find)
next
  case (Some v)
  then have "below_threshold th d v" by (simp add: find_Some_member)
  moreover have "\<not> below_threshold th d u" using assms(2,3) by (rule at_threshold_not_below)
  ultimately have "v \<noteq> u" by auto
  then show ?thesis using Some by (simp add: selectUnits_find)
qed

lemma selectUnits_escalates:
  assumes split: "PRIORITY = pre @ u # post" and more: "post \<noteq> []"
    and pre: "list_all (\<lambda>v. \<not> below_threshold th d v) pre"
    and at: "th u = Some t" "\<bar>d u\<bar> = t"
  shows "\<exists>v \<in> set post. selectUnits th d = JStr v"
proof -
  have "\<not> below_threshold th d u" using at by (rule at_threshold_not_below)
  with pre have f: "find (below_threshold th d) PRIORITY = find (below_threshold th d) post"
    unfolding split by (rule find_skip_failed)
  show ?thesis
  proof (cases "find (below_threshold th d) post")
    case None
    have "last post = ''year''" using last_PRIORITY more by (simp add: split)
    then have "''year'' \<in> set post" using more last_in_set by metis
    then show ?thesis using None f by (simp add: selectUnits_find)
  next
    case (Some v)
    then have "v \<in> set post" by (simp add: find_Some_member)
    then show ?thesis using Some f by (simp add: selectUnits_find)
  qed
qed

text \<open>
  Claim C1. For every diff report and threshold table, \<open>selectUnits\<close> returns the first
  unit of \<open>PRIORITY\<close>, in its order, whose absolute diff value is strictly below the unit's
  threshold, and \<open>year\<close> when there is none. A unit whose diff magnitude equals its
  threshold is never the one selected (for every unit but \<open>year\<close>, which has no coarser
  unit); when the scan reaches such a unit (every finer unit failed its test), the result
  is one of the coarser units after it. When no test succeeds the result is \<open>year\<close>.
\<close>

theorem selectUnits_first_under_threshold:
  "selectUnits th d =
     JStr (case find (below_threshold th d) PRIORITY of Some u \<Rightarrow> u | None \<Rightarrow> ''year'')
   \<and> (\<forall>u t. u \<noteq> ''year'' \<and> th u = Some t \<and> \<bar>d u\<bar> = t \<longrightarrow> selectUnits th d \<noteq> JStr u)
   \<and> (\<forall>pre u post t.
         PRIORITY = pre @ u # post \<and> post \<noteq> []
         \<and> list_all (\<lambda>v. \<not> below_threshold th d v) pre
         \<and> th u = Some t \<and> \<bar>d u\<bar> = t
         \<longrightarrow> (\<exists>v \<in> set post. selectUnits th d = JStr v))
   \<and> (list_all (\<lambda>v. \<not> below_threshold th d v) PRIORITY \<longrightarrow> selectUnits th d = JStr ''year'')
   \<and> PRIORITY = [''second'', ''minute'', ''hour'', ''day'', ''month'', ''year'']"
proof (intro conjI allI impI)
  show "PRIORITY = [''second'', ''minute'', ''hour'', ''day'', ''month'', ''year'']"
    by (rule PRIORITY_def)
next
  show "selectUnits th d =
     JStr (case find (below_threshold th d) PRIORITY of Some u \<Rightarrow> u | None \<Rightarrow> ''year'')"
    by (rule selectUnits_find)
next
  fix u t
  assume "u \<noteq> ''year'' \<and> th u = Some t \<and> \<bar>d u\<bar> = t"
  then show "selectUnits th d \<noteq> JStr u"
    using selectUnits_not_at_threshold by blast
next
  fix pre u post t
  assume "PRIORITY = pre @ u # post \<and> post \<noteq> []
         \<and> list_all (\<lambda>v. \<not> below_threshold th d v) pre
         \<and> th u = Some t \<and> \<bar>d u\<bar> = t"
  then show "\<exists>v \<in> set post. selectUnits th d = JStr v"
    using selectUnits_escalates by blast
next
  assume "list_all (\<lambda>v. \<not> below_threshold th d v) PRIORITY"
  then have "find (below_threshold th d) PRIORITY = None" by (simp add: find_None_all)
  then show "selectUnits th d = JStr ''year''" by (simp add: selectUnits_find)
qed

theorem selectUnits_first_under_threshold_witness:
  "selectUnits default_thresholds (\<lambda>u. if u = ''second'' then - 45 else 7) \<noteq> JStr ''second''
   \<and> (\<exists>v \<in> set [''minute'', ''hour'', ''day'', ''month'', ''year''].
         selectUnits default_thresholds (\<lambda>u. if u = ''second'' then - 45 else 7) = JStr v)
   \<and> selectUnits default_thresholds (\<lambda>u. if u = ''second'' then - 45 else 7) = JStr ''minute''
   \<and> selectUnits default_thresholds (\<lambda>u. 100) = JStr ''year''"
proof -
  let ?d = "\<lambda>u::string. if u = ''second'' then - 45 else (7::int)"
  note t = selectUnits_first_under_threshold [of default_thresholds ?d]
  note y = selectUnits_first_under_threshold [of default_thresholds "\<lambda>u. 100"]
  have a: "selectUnits default_thresholds ?d \<noteq> JStr ''second''"
    using t [THEN conjunct2, THEN conjunct1, rule_format, of "''second''" 45]
    by (simp add: default_thresholds_def)
  have b: "\<exists>v \<in> set [''minute'', ''hour'', ''day'', ''month'', ''year''].
         selectUnits default_thresholds ?d = JStr v"
    using t [THEN conjunct2, THEN conjunct2, THEN conjunct1, rule_format,
        of "[]" "''second''" "[''minute'', ''hour'', ''day'', ''month'', ''year'']" 45]
    by (simp add: default_thresholds_def PRIORITY_def)
  have c: "selectUnits default_thresholds ?d = JStr ''minute''"
    using t [THEN conjunct1]
    by (simp add: default_thresholds_def PRIORITY_def below_threshold_def)
  have e: "selectUnits default_thresholds (\<lambda>u. 100) = JStr ''year''"
    using y [THEN conjunct2, THEN conjunct2, THEN conjunct2, THEN conjunct1]
    by (simp add: default_thresholds_def PRIORITY_def below_threshold_def)
  show ?thesis using a b c e by blast
qed

section \<open>Unit validation at construction\<close>

lemma plural_not_in_PRIORITY: "s \<in> set PRIORITY \<Longrightarrow> s @ ''s'' \<notin> set PRIORITY"
  by (auto simp: PRIORITY_def)

lemma join_PRIORITY: "join '', '' PRIORITY = ''second, minute, hour, day, month, year''"
  by (simp add: PRIORITY_def)

lemma isValidUnits_exact: "s \<in> set PRIORITY \<Longrightarrow> isValidUnits (JStr s) = Inr True"
  by (simp add: isValidUnits_def)

lemma isValidUnits_plural:
  "s \<in> set PRIORITY \<Longrightarrow>
     isValidUnits (JStr (s @ ''s'')) = Inl (InvalidUnit (msg_did_you_mean (s @ ''s'') s))"
  using plural_not_in_PRIORITY [of s]
  by (auto simp: isValidUnits_def ends_with_s_def PRIORITY_def)

lemma isValidUnits_other_string:
  assumes "s \<notin> set PRIORITY" and "\<forall>u \<in> set PRIORITY. s \<noteq> u @ ''s''"
  shows "isValidUnits (JStr s) = Inl (InvalidUnit (msg_must_be_one_of s))"
proof (cases "ends_with_s s")
  case False
  then show ?thesis using assms(1) by (simp add: isValidUnits_def)
next
  case True
  then have "s = butlast s @ ''s''"
    using append_butlast_last_id [of s] by (simp add: ends_with_s_def)
  with assms(2) have "butlast s \<notin> set PRIORITY" by metis
  then show ?thesis using assms(1) True by (simp add: isValidUnits_def)
qed

lemma isValidUnits_other_text:
  assumes "\<forall>x. v \<noteq> JStr x" and "\<not> ends_with_s (to_string v)"
  shows "isValidUnits v = Inl (InvalidUnit (msg_must_be_one_of (to_string v)))"
  using assms by (cases v) (simp_all add: isValidUnits_def)

lemma isValidUnits_not_string_plural:
  assumes "\<forall>x. v \<noteq> JStr x" and "ends_with_s (to_string v)"
  shows "isValidUnits v = Inl RuntimeTypeError"
  using assms by (cases v) (simp_all add: isValidUnits_def)

lemma isValidUnits_other:
  assumes "\<not> in_PRIORITY v" and "\<forall>u \<in> set PRIORITY. v \<noteq> JStr (u @ ''s'')"
    and "(\<exists>x. v = JStr x) \<or> \<not> ends_with_s (to_string v)"
  shows "isValidUnits v = Inl (InvalidUnit (msg_must_be_one_of (to_string v)))"
proof (cases "\<exists>x. v = JStr x")
  case True
  then obtain x where v: "v = JStr x" by blast
  show ?thesis using assms(1,2) isValidUnits_other_string [of x] by (simp add: v)
next
  case False
  then show ?thesis using assms(3) isValidUnits_other_text [of v] by blast
qed

lemma RelativeFormat_validates_truthy:
  "resolveLocale g ls = Inr loc \<Longrightarrow> truthy v \<Longrightarrow>
     (RelativeFormat g ls (Some \<lparr>opt_units = v\<rparr>) :: error + 'm formatter) =
       (case isValidUnits v of
          Inl e \<Rightarrow> Inl e
        | Inr ok \<Rightarrow> Inr \<lparr>inst_locale = loc, inst_messages = Map.empty, inst_units = v\<rparr>)"
proof (cases "in_PRIORITY v")
  case True
  assume "resolveLocale g ls = Inr loc" "truthy v"
  then show ?thesis using True by (simp add: RelativeFormat_def isValidUnits_def)
next
  case False
  assume a: "resolveLocale g ls = Inr loc" "truthy v"
  have "\<exists>e. isValidUnits v = Inl e"
    using False by (auto simp: isValidUnits_def Let_def split: js_value.splits)
  then show ?thesis using a by (auto simp: RelativeFormat_def)
qed

lemma resolveLocale_loop_no_InvalidUnit:
  "resolveLocale_loop avail tags ts \<noteq> Inl (InvalidUnit m)"
  by (induction ts) (simp_all add: Let_def)

lemma resolveLocale_no_InvalidUnit: "resolveLocale g ls \<noteq> Inl (InvalidUnit m)"
  by (simp add: resolveLocale_def Let_def resolveLocale_loop_no_InvalidUnit
      split: locales.split)


lemma PRIORITY_nonempty_names: "s \<in> set PRIORITY \<Longrightarrow> s \<noteq> []"
  by (auto simp: PRIORITY_def)

lemma msg_must_be_one_of_text:
  "msg_must_be_one_of x =
     dq @ x @ dq @ '' is not a valid IntlRelativeFormat '' @ bq @ ''units'' @ bq
       @ '' value, it must be one of: second, minute, hour, day, month, year''"
  by (simp add: msg_must_be_one_of_def join_PRIORITY)


lemma RelativeFormat_falsy_units:
  "\<not> truthy v \<Longrightarrow>
     (RelativeFormat g ls (Some \<lparr>opt_units = v\<rparr>) :: error + 'm formatter) =
       (case resolveLocale g ls of
          Inl e \<Rightarrow> Inl e
        | Inr loc \<Rightarrow> Inr \<lparr>inst_locale = loc, inst_messages = Map.empty, inst_units = JUndefined\<rparr>)"
  by (simp add: RelativeFormat_def split: sum.split)

lemma RelativeFormat_no_options:
  "(RelativeFormat g ls None :: error + 'm formatter) =
       (case resolveLocale g ls of
          Inl e \<Rightarrow> Inl e
        | Inr loc \<Rightarrow> Inr \<lparr>inst_locale = loc, inst_messages = Map.empty, inst_units = JUndefined\<rparr>)"
  by (simp add: RelativeFormat_def split: sum.split)

lemma RelativeFormat_InvalidUnit_truthy:
  "(RelativeFormat g ls (Some \<lparr>opt_units = w\<rparr>) :: error + 'm formatter) = Inl (InvalidUnit m)
     \<Longrightarrow> truthy w"
proof (rule ccontr)
  assume r: "(RelativeFormat g ls (Some \<lparr>opt_units = w\<rparr>) :: error + 'm formatter) = Inl (InvalidUnit m)"
    and "\<not> truthy w"
  then have "(case resolveLocale g ls of
          Inl e \<Rightarrow> Inl e
        | Inr loc \<Rightarrow> Inr \<lparr>inst_locale = loc, inst_messages = Map.empty, inst_units = JUndefined\<rparr>)
      = (Inl (InvalidUnit m) :: error + 'm formatter)"
    by (simp add: RelativeFormat_falsy_units)
  then show False
    using resolveLocale_no_InvalidUnit [of g ls m] by (simp split: sum.splits)
qed

lemma example_resolves_en: "resolveLocale example_global (LString ''en-US'') = Inr ''en''"
  by (simp add: example_global_def resolveLocale_def localeKey_def toLowerCase_def
      first_subtag_def to_lower_def is_az_def)

text \<open>
  Claim C7, as the code has it. The validator \<open>isValidUnits\<close> accepts the six members of
  \<open>PRIORITY\<close>; a member followed by an s is rejected with the \<open>InvalidUnit\<close> error whose
  message ends in the singular member; every other string, and every other value whose
  string conversion does not end in an s, is rejected with the \<open>InvalidUnit\<close> error whose
  message lists the six units; a value that is not a string and whose string conversion
  ends in an s (the array of the one string \<open>days\<close>) fails with the engine's TypeError, as
  it has no \<^verbatim>\<open>substring\<close>. The constructor, once the locale has resolved, validates
  exactly the truthy options: it pins the member and fails with the validator's error
  otherwise; with a falsy option it returns what it returns without options.
\<close>

theorem units_option_validated:
  "(s \<in> set PRIORITY \<longrightarrow> isValidUnits (JStr s) = Inr True)
   \<and> (s \<in> set PRIORITY \<longrightarrow>
        isValidUnits (JStr (s @ ''s'')) = Inl (InvalidUnit (msg_did_you_mean (s @ ''s'') s)))
   \<and> (\<not> in_PRIORITY v \<and> (\<forall>u \<in> set PRIORITY. v \<noteq> JStr (u @ ''s''))
        \<and> ((\<exists>x. v = JStr x) \<or> \<not> ends_with_s (to_string v)) \<longrightarrow>
        isValidUnits v = Inl (InvalidUnit (msg_must_be_one_of (to_string v))))
   \<and> ((\<forall>x. v \<noteq> JStr x) \<and> ends_with_s (to_string v) \<longrightarrow>
        isValidUnits v = Inl RuntimeTypeError)
   \<and> (resolveLocale g ls = Inr loc \<and> s \<in> set PRIORITY \<longrightarrow>
        (RelativeFormat g ls (Some \<lparr>opt_units = JStr s\<rparr>) :: error + 'm formatter) =
          Inr \<lparr>inst_locale = loc, inst_messages = Map.empty, inst_units = JStr s\<rparr>)
   \<and> (resolveLocale g ls = Inr loc \<and> s \<in> set PRIORITY \<longrightarrow>
        (RelativeFormat g ls (Some \<lparr>opt_units = JStr (s @ ''s'')\<rparr>) :: error + 'm formatter) =
          Inl (InvalidUnit (msg_did_you_mean (s @ ''s'') s)))
   \<and> (resolveLocale g ls = Inr loc \<and> truthy v \<longrightarrow>
        (RelativeFormat g ls (Some \<lparr>opt_units = v\<rparr>) :: error + 'm formatter) =
          (case isValidUnits v of
             Inl e \<Rightarrow> Inl e
           | Inr ok \<Rightarrow> Inr \<lparr>inst_locale = loc, inst_messages = Map.empty, inst_units = v\<rparr>))
   \<and> (\<not> truthy v \<longrightarrow>
        (RelativeFormat g ls (Some \<lparr>opt_units = v\<rparr>) :: error + 'm formatter) =
          RelativeFormat g ls None)
   \<and> msg_did_you_mean x y =
        dq @ x @ dq @ '' is not a valid IntlRelativeFormat '' @ bq @ ''units'' @ bq
          @ '' value, did you mean: '' @ y
   \<and> msg_must_be_one_of x =
        dq @ x @ dq @ '' is not a valid IntlRelativeFormat '' @ bq @ ''units'' @ bq
          @ '' value, it must be one of: second, minute, hour, day, month, year''"
proof (intro conjI impI)
  show "msg_must_be_one_of x =
        dq @ x @ dq @ '' is not a valid IntlRelativeFormat '' @ bq @ ''units'' @ bq
          @ '' value, it must be one of: second, minute, hour, day, month, year''"
    by (rule msg_must_be_one_of_text)
next
  show "msg_did_you_mean x y =
        dq @ x @ dq @ '' is not a valid IntlRelativeFormat '' @ bq @ ''units'' @ bq
          @ '' value, did you mean: '' @ y"
    by (simp add: msg_did_you_mean_def)
next
  assume "s \<in> set PRIORITY"
  then show "isValidUnits (JStr s) = Inr True" by (rule isValidUnits_exact)
next
  assume "s \<in> set PRIORITY"
  then show "isValidUnits (JStr (s @ ''s'')) = Inl (InvalidUnit (msg_did_you_mean (s @ ''s'') s))"
    by (rule isValidUnits_plural)
next
  assume "\<not> in_PRIORITY v \<and> (\<forall>u \<in> set PRIORITY. v \<noteq> JStr (u @ ''s''))
        \<and> ((\<exists>x. v = JStr x) \<or> \<not> ends_with_s (to_string v))"
  then show "isValidUnits v = Inl (InvalidUnit (msg_must_be_one_of (to_string v)))"
    using isValidUnits_other [of v] by blast
next
  assume "(\<forall>x. v \<noteq> JStr x) \<and> ends_with_s (to_string v)"
  then show "isValidUnits v = Inl RuntimeTypeError"
    using isValidUnits_not_string_plural [of v] by blast
next
  assume a: "resolveLocale g ls = Inr loc \<and> s \<in> set PRIORITY"
  then have "truthy (JStr s)" using PRIORITY_nonempty_names by simp
  then show "(RelativeFormat g ls (Some \<lparr>opt_units = JStr s\<rparr>) :: error + 'm formatter) =
          Inr \<lparr>inst_locale = loc, inst_messages = Map.empty, inst_units = JStr s\<rparr>"
    using a by (simp add: RelativeFormat_validates_truthy isValidUnits_exact)
next
  assume a: "resolveLocale g ls = Inr loc \<and> s \<in> set PRIORITY"
  then show "(RelativeFormat g ls (Some \<lparr>opt_units = JStr (s @ ''s'')\<rparr>) :: error + 'm formatter) =
          Inl (InvalidUnit (msg_did_you_mean (s @ ''s'') s))"
    by (simp add: RelativeFormat_validates_truthy isValidUnits_plural)
next
  assume "resolveLocale g ls = Inr loc \<and> truthy v"
  then show "(RelativeFormat g ls (Some \<lparr>opt_units = v\<rparr>) :: error + 'm formatter) =
          (case isValidUnits v of
             Inl e \<Rightarrow> Inl e
           | Inr ok \<Rightarrow> Inr \<lparr>inst_locale = loc, inst_messages = Map.empty, inst_units = v\<rparr>)"
    using RelativeFormat_validates_truthy [of g ls loc v] by blast
next
  assume "\<not> truthy v"
  then show "(RelativeFormat g ls (Some \<lparr>opt_units = v\<rparr>) :: error + 'm formatter) =
          RelativeFormat g ls None"
    by (simp add: RelativeFormat_falsy_units RelativeFormat_no_options)
qed

theorem units_option_validated_witness:
  "(RelativeFormat example_global (LString ''en-US'') (Some \<lparr>opt_units = JStr ''day''\<rparr>)
      :: error + unit formatter) =
     Inr \<lparr>inst_locale = ''en'', inst_messages = Map.empty, inst_units = JStr ''day''\<rparr>
   \<and> (RelativeFormat example_global (LString ''en-US'') (Some \<lparr>opt_units = JStr ''days''\<rparr>)
      :: error + unit formatter) =
     Inl (InvalidUnit (dq @ ''days'' @ dq @ '' is not a valid IntlRelativeFormat '' @ bq
        @ ''units'' @ bq @ '' value, did you mean: day''))
   \<and> (RelativeFormat example_global (LString ''en-US'') (Some \<lparr>opt_units = JStr ''week''\<rparr>)
      :: error + unit formatter) =
     Inl (InvalidUnit (dq @ ''week'' @ dq @ '' is not a valid IntlRelativeFormat '' @ bq
        @ ''units'' @ bq @ '' value, it must be one of: second, minute, hour, day, month, year''))
   \<and> (RelativeFormat example_global (LString ''en-US'') (Some \<lparr>opt_units = JNum True ''1e+21''\<rparr>)
      :: error + unit formatter) =
     Inl (InvalidUnit (dq @ ''1e+21'' @ dq @ '' is not a valid IntlRelativeFormat '' @ bq
        @ ''units'' @ bq @ '' value, it must be one of: second, minute, hour, day, month, year''))
   \<and> (RelativeFormat example_global (LString ''en-US'') (Some \<lparr>opt_units = JArr [JStr ''days'']\<rparr>)
      :: error + unit formatter) = Inl RuntimeTypeError
   \<and> (RelativeFormat example_global (LString ''en-US'') (Some \<lparr>opt_units = JStr []\<rparr>)
      :: error + unit formatter) = RelativeFormat example_global (LString ''en-US'') None"
proof -
  note r = example_resolves_en
  note t = units_option_validated [where 'm = unit and g = example_global
      and ls = "LString ''en-US''" and loc = "''en''" and s = "''day''"]
  have a: "(RelativeFormat example_global (LString ''en-US'') (Some \<lparr>opt_units = JStr ''day''\<rparr>)
      :: error + unit formatter) =
     Inr \<lparr>inst_locale = ''en'', inst_messages = Map.empty, inst_units = JStr ''day''\<rparr>"
    using r t [of JNull "''days''" "''day''"] by (simp add: PRIORITY_def)
  have b: "(RelativeFormat example_global (LString ''en-US'') (Some \<lparr>opt_units = JStr ''days''\<rparr>)
      :: error + unit formatter) =
     Inl (InvalidUnit (dq @ ''days'' @ dq @ '' is not a valid IntlRelativeFormat '' @ bq
        @ ''units'' @ bq @ '' value, did you mean: day''))"
    using r t [of JNull "''days''" "''day''"] by (simp add: PRIORITY_def)
  have c: "(RelativeFormat example_global (LString ''en-US'') (Some \<lparr>opt_units = JStr ''week''\<rparr>)
      :: error + unit formatter) =
     Inl (InvalidUnit (dq @ ''week'' @ dq @ '' is not a valid IntlRelativeFormat '' @ bq
        @ ''units'' @ bq @ '' value, it must be one of: second, minute, hour, day, month, year''))"
    using r t [of "JStr ''week''" "''week''" "''day''"]
    by (simp add: PRIORITY_def)
  have d: "(RelativeFormat example_global (LString ''en-US'') (Some \<lparr>opt_units = JNum True ''1e+21''\<rparr>)
      :: error + unit formatter) =
     Inl (InvalidUnit (dq @ ''1e+21'' @ dq @ '' is not a valid IntlRelativeFormat '' @ bq
        @ ''units'' @ bq @ '' value, it must be one of: second, minute, hour, day, month, year''))"
    using r t [of "JNum True ''1e+21''" "''1e+21''" "''day''"]
    by (simp add: PRIORITY_def ends_with_s_def)
  have e: "(RelativeFormat example_global (LString ''en-US'') (Some \<lparr>opt_units = JArr [JStr ''days'']\<rparr>)
      :: error + unit formatter) = Inl RuntimeTypeError"
    using r t [of "JArr [JStr ''days'']" "''days''" "''day''"]
    by (simp add: ends_with_s_def)
  have f: "(RelativeFormat example_global (LString ''en-US'') (Some \<lparr>opt_units = JStr []\<rparr>)
      :: error + unit formatter) = RelativeFormat example_global (LString ''en-US'') None"
    using t [of "JStr []" "''days''" "''day''"] by simp
  show ?thesis using a b c d e f by blast
qed

theorem units_option_not_rejected_counterexample:
  "\<not> in_PRIORITY (JNum False ''0'')
   \<and> (RelativeFormat example_global (LString ''en-US'') (Some \<lparr>opt_units = JNum False ''0''\<rparr>)
        :: error + unit formatter) =
       Inr \<lparr>inst_locale = ''en'', inst_messages = Map.empty, inst_units = JUndefined\<rparr>
   \<and> \<not> in_PRIORITY (JArr [JStr ''days''])
   \<and> isValidUnits (JArr [JStr ''days'']) = Inl RuntimeTypeError
   \<and> (RelativeFormat example_global (LString ''en-US'') (Some \<lparr>opt_units = JArr [JStr ''days'']\<rparr>)
        :: error + unit formatter) = Inl RuntimeTypeError"
  using example_resolves_en
  by (simp add: RelativeFormat_def isValidUnits_def ends_with_s_def)

text \<open>
  Claim C10. A falsy \<open>units\<close> option (the empty string, 0, false, null, undefined) is never
  validated: the constructor returns what it returns without the option, which is a
  formatter with no pinned unit whenever the locale resolves (its unit is selected from
  the diff report on every call), and never an \<open>InvalidUnit\<close> error. An \<open>InvalidUnit\<close>
  error comes from a truthy \<open>units\<close> value only.
\<close>

theorem falsy_units_skip_validation:
  "(\<not> truthy v \<longrightarrow>
      (RelativeFormat g ls (Some \<lparr>opt_units = v\<rparr>) :: error + 'm formatter) = RelativeFormat g ls None
      \<and> (RelativeFormat g ls (Some \<lparr>opt_units = v\<rparr>) :: error + 'm formatter) =
          (case resolveLocale g ls of
             Inl e \<Rightarrow> Inl e
           | Inr loc \<Rightarrow>
               Inr \<lparr>inst_locale = loc, inst_messages = Map.empty, inst_units = JUndefined\<rparr>)
      \<and> (\<forall>m. (RelativeFormat g ls (Some \<lparr>opt_units = v\<rparr>) :: error + 'm formatter)
             \<noteq> Inl (InvalidUnit m))
      \<and> (\<forall>this g' d.
            (RelativeFormat g ls (Some \<lparr>opt_units = v\<rparr>) :: error + 'm formatter) = Inr this
            \<longrightarrow> format_units g' this d = selectUnits (thresholds g') d))
   \<and> ((RelativeFormat g ls (Some \<lparr>opt_units = w\<rparr>) :: error + 'm formatter) = Inl (InvalidUnit m')
        \<longrightarrow> truthy w)"
proof (intro conjI impI allI)
  assume f: "\<not> truthy v"
  show "(RelativeFormat g ls (Some \<lparr>opt_units = v\<rparr>) :: error + 'm formatter) = RelativeFormat g ls None"
    using f by (simp add: RelativeFormat_falsy_units RelativeFormat_no_options)
  show "(RelativeFormat g ls (Some \<lparr>opt_units = v\<rparr>) :: error + 'm formatter) =
          (case resolveLocale g ls of
             Inl e \<Rightarrow> Inl e
           | Inr loc \<Rightarrow>
               Inr \<lparr>inst_locale = loc, inst_messages = Map.empty, inst_units = JUndefined\<rparr>)"
    using f by (rule RelativeFormat_falsy_units)
  show "(RelativeFormat g ls (Some \<lparr>opt_units = v\<rparr>) :: error + 'm formatter) \<noteq> Inl (InvalidUnit m)" for m
    using f RelativeFormat_InvalidUnit_truthy by blast
  show "format_units g' this d = selectUnits (thresholds g') d"
    if "(RelativeFormat g ls (Some \<lparr>opt_units = v\<rparr>) :: error + 'm formatter) = Inr this"
    for this g' d
    using that f
    by (auto simp: RelativeFormat_falsy_units format_units_def split: sum.splits)
next
  assume "(RelativeFormat g ls (Some \<lparr>opt_units = w\<rparr>) :: error + 'm formatter) = Inl (InvalidUnit m')"
  then show "truthy w" by (rule RelativeFormat_InvalidUnit_truthy)
qed

theorem falsy_units_skip_validation_witness:
  "(RelativeFormat example_global (LString ''en-US'') (Some \<lparr>opt_units = JStr ''''\<rparr>)
      :: error + unit formatter) =
     Inr \<lparr>inst_locale = ''en'', inst_messages = Map.empty, inst_units = JUndefined\<rparr>
   \<and> (RelativeFormat example_global (LString ''en-US'') (Some \<lparr>opt_units = JNum False ''0''\<rparr>)
      :: error + unit formatter) =
     Inr \<lparr>inst_locale = ''en'', inst_messages = Map.empty, inst_units = JUndefined\<rparr>
   \<and> (RelativeFormat example_global (LString ''en-US'') (Some \<lparr>opt_units = JBool False\<rparr>)
      :: error + unit formatter) =
     Inr \<lparr>inst_locale = ''en'', inst_messages = Map.empty, inst_units = JUndefined\<rparr>
   \<and> (RelativeFormat example_global (LString ''en-US'') (Some \<lparr>opt_units = JNull\<rparr>)
      :: error + unit formatter) =
     Inr \<lparr>inst_locale = ''en'', inst_messages = Map.empty, inst_units = JUndefined\<rparr>
   \<and> truthy (JStr ''days'')"
proof -
  note r = example_resolves_en
  note t = falsy_units_skip_validation [where 'm = unit and g = example_global
      and ls = "LString ''en-US''" and w = "JStr ''days''"
      and m' = "msg_did_you_mean ''days'' ''day''"]
  have a: "(RelativeFormat example_global (LString ''en-US'') (Some \<lparr>opt_units = JStr ''''\<rparr>)
      :: error + unit formatter) =
     Inr \<lparr>inst_locale = ''en'', inst_messages = Map.empty, inst_units = JUndefined\<rparr>"
    using t [of "JStr ''''", THEN conjunct1, rule_format, THEN conjunct2, THEN conjunct1] r by simp
  have b: "(RelativeFormat example_global (LString ''en-US'') (Some \<lparr>opt_units = JNum False ''0''\<rparr>)
      :: error + unit formatter) =
     Inr \<lparr>inst_locale = ''en'', inst_messages = Map.empty, inst_units = JUndefined\<rparr>"
    using t [of "JNum False ''0''", THEN conjunct1, rule_format, THEN conjunct2, THEN conjunct1] r by simp
  have c: "(RelativeFormat example_global (LString ''en-US'') (Some \<lparr>opt_units = JBool False\<rparr>)
      :: error + unit formatter) =
     Inr \<lparr>inst_locale = ''en'', inst_messages = Map.empty, inst_units = JUndefined\<rparr>"
    using t [of "JBool False", THEN conjunct1, rule_format, THEN conjunct2, THEN conjunct1] r by simp
  have d: "(RelativeFormat example_global (LString ''en-US'') (Some \<lparr>opt_units = JNull\<rparr>)
      :: error + unit formatter) =
     Inr \<lparr>inst_locale = ''en'', inst_messages = Map.empty, inst_units = JUndefined\<rparr>"
    using t [of JNull, THEN conjunct1, rule_format, THEN conjunct2, THEN conjunct1] r by simp
  have "(RelativeFormat example_global (LString ''en-US'') (Some \<lparr>opt_units = JStr ''days''\<rparr>)
      :: error + unit formatter) = Inl (InvalidUnit (msg_did_you_mean ''days'' ''day''))"
    using r isValidUnits_plural [of "''day''"] by (simp add: RelativeFormat_def PRIORITY_def)
  then have e: "truthy (JStr ''days'')"
    using t [of JNull, THEN conjunct2] by blast
  show ?thesis using a b c d e by blast
qed

section \<open>Locale resolution: the scan and the default\<close>

lemma resolveLocale_loop_find:
  "resolveLocale_loop avail tags ts =
     (case find (\<lambda>t. \<not> structurally_valid (localeKey t) \<or> localeKey t \<in> set avail) ts of
        None \<Rightarrow> Inl (UnsupportedLocale (msg_no_locale_data tags))
      | Some t \<Rightarrow>
          if structurally_valid (localeKey t) then Inr (localeKey t)
          else Inl (MalformedLocaleTag (msg_not_valid_tag (localeKey t))))"
  by (induction ts) (auto simp: Let_def)

lemma resolveLocale_LArray:
  "resolveLocale g (LArray tags) = resolveLocale_loop (availableLocales g) tags tags"
  by (simp add: resolveLocale_def)

lemma resolveLocale_loop_skips_unregistered:
  "list_all (\<lambda>t. structurally_valid (localeKey t) \<and> localeKey t \<notin> set avail) pre \<Longrightarrow>
     resolveLocale_loop avail tags (pre @ ts) = resolveLocale_loop avail tags ts"
  by (induction pre) (auto simp: Let_def)

lemma example_keys:
  "localeKey ''1'' = ''1''" "localeKey ''en-US'' = ''en''" "localeKey ''xx-YY'' = ''xx''"
  "localeKey ''ENGL-us'' = ''engl''"
  by code_simp+

lemma example_validity:
  "\<not> structurally_valid ''1''" "structurally_valid ''en''" "structurally_valid ''xx''"
  "structurally_valid ''engl''" "structurally_valid ''e1ng''" "\<not> structurally_valid ''a1b''"
  by code_simp+

text \<open>
  Claim C4, as the code has it. Resolution of an array of tags stops at the first
  candidate that is structurally invalid or registered: it fails with
  \<open>MalformedLocaleTag\<close> there when the candidate is structurally invalid, whatever comes
  after it, and returns the candidate's key when it is registered. So a structurally
  invalid candidate aborts the scan as soon as the scan reaches it (every candidate before
  it structurally valid and unregistered), and a later valid registered candidate is
  returned only when every candidate before it is structurally valid and unregistered.
\<close>

theorem resolveLocale_first_decisive_candidate:
  "resolveLocale g (LArray tags) =
     (case find (\<lambda>t. \<not> structurally_valid (localeKey t)
                      \<or> localeKey t \<in> set (availableLocales g)) tags of
        None \<Rightarrow> Inl (UnsupportedLocale (msg_no_locale_data tags))
      | Some t \<Rightarrow>
          if structurally_valid (localeKey t) then Inr (localeKey t)
          else Inl (MalformedLocaleTag (msg_not_valid_tag (localeKey t))))
   \<and> (list_all (\<lambda>t. structurally_valid (localeKey t)
                      \<and> localeKey t \<notin> set (availableLocales g)) pre
        \<and> \<not> structurally_valid (localeKey bad) \<longrightarrow>
        resolveLocale g (LArray (pre @ bad # post)) =
          Inl (MalformedLocaleTag (msg_not_valid_tag (localeKey bad))))
   \<and> (list_all (\<lambda>t. structurally_valid (localeKey t)
                      \<and> localeKey t \<notin> set (availableLocales g)) pre
        \<and> structurally_valid (localeKey good) \<and> localeKey good \<in> set (availableLocales g) \<longrightarrow>
        resolveLocale g (LArray (pre @ good # post)) = Inr (localeKey good))"
proof (intro conjI impI)
  show "resolveLocale g (LArray tags) =
     (case find (\<lambda>t. \<not> structurally_valid (localeKey t)
                      \<or> localeKey t \<in> set (availableLocales g)) tags of
        None \<Rightarrow> Inl (UnsupportedLocale (msg_no_locale_data tags))
      | Some t \<Rightarrow>
          if structurally_valid (localeKey t) then Inr (localeKey t)
          else Inl (MalformedLocaleTag (msg_not_valid_tag (localeKey t))))"
    by (simp only: resolveLocale_LArray resolveLocale_loop_find)
next
  assume "list_all (\<lambda>t. structurally_valid (localeKey t)
                      \<and> localeKey t \<notin> set (availableLocales g)) pre
        \<and> \<not> structurally_valid (localeKey bad)"
  then show "resolveLocale g (LArray (pre @ bad # post)) =
          Inl (MalformedLocaleTag (msg_not_valid_tag (localeKey bad)))"
    by (simp add: resolveLocale_LArray resolveLocale_loop_skips_unregistered)
next
  assume "list_all (\<lambda>t. structurally_valid (localeKey t)
                      \<and> localeKey t \<notin> set (availableLocales g)) pre
        \<and> structurally_valid (localeKey good) \<and> localeKey good \<in> set (availableLocales g)"
  then show "resolveLocale g (LArray (pre @ good # post)) = Inr (localeKey good)"
    by (simp add: resolveLocale_LArray resolveLocale_loop_skips_unregistered)
qed

theorem resolveLocale_first_decisive_candidate_witness:
  "resolveLocale example_global (LArray [''xx-YY'', ''1'', ''en-US'']) =
     Inl (MalformedLocaleTag (msg_not_valid_tag ''1''))
   \<and> resolveLocale example_global (LArray [''xx-YY'', ''en-US'', ''1'']) = Inr ''en''"
proof -
  have pre: "list_all (\<lambda>t. structurally_valid (localeKey t)
                      \<and> localeKey t \<notin> set (availableLocales example_global)) [''xx-YY'']"
    by code_simp
  have bad: "\<not> structurally_valid (localeKey ''1'')"
    by code_simp
  have good: "structurally_valid (localeKey ''en-US'')
      \<and> localeKey ''en-US'' \<in> set (availableLocales example_global)"
    by code_simp
  have "resolveLocale example_global (LArray ([''xx-YY''] @ ''1'' # [''en-US''])) =
     Inl (MalformedLocaleTag (msg_not_valid_tag (localeKey ''1'')))"
    using resolveLocale_first_decisive_candidate
      [of example_global "[]" "[''xx-YY'']" "''1''" "[''en-US'']" "''en-US''",
        THEN conjunct2, THEN conjunct1] pre bad
    by blast
  then have a: "resolveLocale example_global (LArray [''xx-YY'', ''1'', ''en-US'']) =
     Inl (MalformedLocaleTag (msg_not_valid_tag ''1''))"
    by (simp add: example_keys)
  have "resolveLocale example_global (LArray ([''xx-YY''] @ ''en-US'' # [''1''])) =
     Inr (localeKey ''en-US'')"
    using resolveLocale_first_decisive_candidate
      [of example_global "[]" "[''xx-YY'']" "''1''" "[''1'']" "''en-US''",
        THEN conjunct2, THEN conjunct2] pre good
    by blast
  then have b: "resolveLocale example_global (LArray [''xx-YY'', ''en-US'', ''1'']) = Inr ''en''"
    by (simp add: example_keys)
  show ?thesis using a b by blast
qed

theorem later_valid_candidate_counterexample:
  "\<not> structurally_valid (localeKey ''1'')
   \<and> structurally_valid (localeKey ''en-US'')
   \<and> localeKey ''en-US'' \<in> set (availableLocales example_global)
   \<and> resolveLocale example_global (LArray [''1'', ''en-US'']) =
       Inl (MalformedLocaleTag (msg_not_valid_tag ''1''))
   \<and> resolveLocale example_global (LArray [''1'', ''en-US'']) \<noteq> Inr (localeKey ''en-US'')"
  by code_simp

lemma two_to_three_letters_accepted: "two_to_three_letters s \<Longrightarrow> structurally_valid s"
proof -
  assume a: "two_to_three_letters s"
  then obtain x y r where s: "s = x # y # r"
    by (cases s; cases "tl s") (auto simp: two_to_three_letters_def)
  then have "is_az x" "is_az y" using a by (simp_all add: two_to_three_letters_def)
  then show ?thesis using s by simp
qed

text \<open>
  Claim C5, at a root subtag of four letters. The key is the lower-cased text before the
  first hyphen, but the test for structural validity accepts it: the tag fails as
  unsupported, not as malformed, and resolves once a locale of that key is registered. A
  root with a digit between letters passes the test as well.
\<close>

theorem four_letter_root_passes_validation:
  "localeKey ''ENGL-us'' = ''engl''
   \<and> \<not> two_to_three_letters ''engl''
   \<and> structurally_valid ''engl''
   \<and> \<not> two_to_three_letters ''e1ng''
   \<and> structurally_valid ''e1ng''
   \<and> resolveLocale example_global (LString ''ENGL-us'') =
       Inl (UnsupportedLocale (msg_no_locale_data [''ENGL-us'']))
   \<and> resolveLocale (example_global\<lparr>availableLocales := [''en'', ''engl'']\<rparr>) (LString ''ENGL-us'') =
       Inr ''engl''"
  by code_simp

text \<open>
  Claim C6, as the code has it. When the requested locales are absent (undefined, null or
  the empty string: a falsy argument), resolution is that of the default locale, and it
  succeeds with the default's key when the default is a tag with a structurally valid,
  registered key. An empty array is not absent: the default is not consulted and
  resolution fails with \<open>UnsupportedLocale\<close>.
\<close>

theorem absent_locales_fall_back_to_default:
  "(\<not> locales_truthy ls \<longrightarrow> resolveLocale g ls = resolveLocale g (defaultLocale g))
   \<and> (\<not> locales_truthy ls \<and> defaultLocale g = LString tag
        \<and> structurally_valid (localeKey tag) \<and> localeKey tag \<in> set (availableLocales g) \<longrightarrow>
        resolveLocale g ls = Inr (localeKey tag))
   \<and> resolveLocale g (LArray []) = Inl (UnsupportedLocale (msg_no_locale_data []))"
  by (simp add: resolveLocale_def)

theorem absent_locales_fall_back_to_default_witness:
  "resolveLocale example_global LUndefined = Inr ''en''
   \<and> resolveLocale example_global (LString []) = Inr ''en''
   \<and> resolveLocale example_global LUndefined = resolveLocale example_global (LString ''en-US'')"
proof -
  have d: "defaultLocale example_global = LString ''en-US''"
    by (simp add: example_global_def)
  have v: "structurally_valid (localeKey ''en-US'')
      \<and> localeKey ''en-US'' \<in> set (availableLocales example_global)"
    by code_simp
  have "resolveLocale example_global LUndefined = Inr (localeKey ''en-US'')"
    using absent_locales_fall_back_to_default
      [of LUndefined example_global "''en-US''", THEN conjunct2, THEN conjunct1] d v
    by simp
  then have a: "resolveLocale example_global LUndefined = Inr ''en''"
    by (simp add: example_keys)
  have "resolveLocale example_global (LString []) = Inr (localeKey ''en-US'')"
    using absent_locales_fall_back_to_default
      [of "LString []" example_global "''en-US''", THEN conjunct2, THEN conjunct1] d v
    by simp
  then have b: "resolveLocale example_global (LString []) = Inr ''en''"
    by (simp add: example_keys)
  have c: "resolveLocale example_global LUndefined = resolveLocale example_global (LString ''en-US'')"
    using absent_locales_fall_back_to_default
      [of LUndefined example_global "''en-US''", THEN conjunct1] d
    by simp
  show ?thesis using a b c by blast
qed

theorem empty_array_ignores_default_counterexample:
  "defaultLocale example_global = LString ''en-US''
   \<and> structurally_valid (localeKey ''en-US'')
   \<and> localeKey ''en-US'' \<in> set (availableLocales example_global)
   \<and> resolveLocale example_global (LString ''en-US'') = Inr ''en''
   \<and> resolveLocale example_global (LArray []) = Inl (UnsupportedLocale (msg_no_locale_data []))
   \<and> resolveLocale example_global (LArray []) \<noteq> resolveLocale example_global (LString ''en-US'')"
  by code_simp

section \<open>Formatting: pinned units, the message cache and exact phrases\<close>

lemma synthesize_example:
  "synthesize example_relativeTime =
     ''{when, select, future {{0, plural,  one {in # day} other {in # days}}}past {{0, plural,  one {# day ago} other {# days ago}}}}''"
  by code_simp

lemma resolveMessage_frame:
  "resolveMessage c g this k = Inr (m, this') \<Longrightarrow>
     inst_units this' = inst_units this \<and> inst_locale this' = inst_locale this"
  by (auto simp: resolveMessage_def split: option.splits sum.splits)

lemma format_message_frame:
  "inst_units (snd (format_message c g this k d)) = inst_units this
   \<and> inst_locale (snd (format_message c g this k d)) = inst_locale this"
proof (cases "resolveMessage c g this k")
  case (Inl e)
  then show ?thesis by (simp add: format_message_def)
next
  case (Inr r)
  obtain m this' where r: "r = (m, this')" by (cases r) auto
  show ?thesis using Inr r resolveMessage_frame [of c g this k m this']
    by (simp add: format_message_def)
qed

lemma format_frame:
  "inst_units (snd (format c g this now date)) = inst_units this
   \<and> inst_locale (snd (format c g this now date)) = inst_locale this"
  by (simp add: format_def Let_def format_message_frame split: option.split sum.split)

lemma format_calls_frame:
  "inst_units (format_calls c calls this) = inst_units this
   \<and> inst_locale (format_calls c calls this) = inst_locale this"
proof (induction calls arbitrary: this)
  case Nil
  show ?case by simp
next
  case (Cons call calls)
  obtain g now date where call: "call = (g, now, date)" by (cases call) auto
  show ?case using Cons [of "snd (format c g this now date)"] format_frame [of c g this now date]
    by (simp add: call)
qed

lemma resolveMessage_keeps_entries:
  "inst_messages this u = Some m \<Longrightarrow> resolveMessage c g this k = Inr (m', this') \<Longrightarrow>
     inst_messages this' u = Some m"
  by (auto simp: resolveMessage_def split: option.splits sum.splits)

lemma format_message_keeps_entries:
  assumes "inst_messages this u = Some m"
  shows "inst_messages (snd (format_message c g this k d)) u = Some m"
proof (cases "resolveMessage c g this k")
  case (Inl e)
  then show ?thesis using assms by (simp add: format_message_def)
next
  case (Inr r)
  obtain m' this' where r: "r = (m', this')" by (cases r) auto
  show ?thesis using Inr r resolveMessage_keeps_entries [OF assms, of c g k m' this']
    by (simp add: format_message_def)
qed

lemma format_keeps_entries:
  "inst_messages this u = Some m \<Longrightarrow> inst_messages (snd (format c g this now date)) u = Some m"
  by (simp add: format_def Let_def format_message_keeps_entries split: option.split sum.split)

lemma format_calls_keep_entries:
  "inst_messages this u = Some m \<Longrightarrow> inst_messages (format_calls c calls this) u = Some m"
proof (induction calls arbitrary: this)
  case Nil
  then show ?case by simp
next
  case (Cons call calls)
  obtain g now date where call: "call = (g, now, date)" by (cases call) auto
  have "inst_messages (snd (format c g this now date)) u = Some m"
    using Cons.prems by (rule format_keeps_entries)
  then show ?case using Cons.IH by (simp add: call)
qed

lemma resolveMessage_cached:
  "inst_messages this u = Some m \<Longrightarrow> resolveMessage c g this u = Inr (m, this)"
  by (simp add: resolveMessage_def)

lemma resolveMessage_stores:
  "resolveMessage c g this u = Inr (m, this') \<Longrightarrow> inst_messages this' u = Some m"
  by (auto simp: resolveMessage_def split: option.splits sum.splits)

lemma resolveMessage_first_access:
  "resolveMessage c g this u = Inr (m, this') \<Longrightarrow> inst_messages this u = None \<Longrightarrow>
     (\<exists>fld rt. lookup_field g this u = Inr (Some fld) \<and> f_relativeTime fld = Some rt
        \<and> compile c (synthesize rt) (inst_locale this) = Inr m)
     \<and> this' = this\<lparr>inst_messages := (inst_messages this)(u \<mapsto> m)\<rparr>"
  by (auto simp: resolveMessage_def split: option.splits sum.splits)

lemma lookup_field_ignores_thresholds:
  "lookup_field (g\<lparr>thresholds := th\<rparr>) this k = lookup_field g this k"
  by (simp add: lookup_field_def)

lemma resolveMessage_ignores_thresholds:
  "resolveMessage c (g\<lparr>thresholds := th\<rparr>) this k = resolveMessage c g this k"
  unfolding resolveMessage_def lookup_field_ignores_thresholds by (rule refl)

lemma format_message_ignores_thresholds:
  "format_message c (g\<lparr>thresholds := th\<rparr>) this k d = format_message c g this k d"
  unfolding format_message_def resolveMessage_ignores_thresholds by (rule refl)

lemma resolveRelativeUnits_ignores_thresholds:
  "resolveRelativeUnits (g\<lparr>thresholds := th\<rparr>) this d k = resolveRelativeUnits g this d k"
  unfolding resolveRelativeUnits_def lookup_field_ignores_thresholds by (rule refl)

lemma format_units_pinned: "truthy (inst_units this) \<Longrightarrow> format_units g this d = inst_units this"
  by (simp add: format_units_def)

lemma format_pinned_ignores_thresholds:
  "truthy (inst_units this) \<Longrightarrow>
     format c (g\<lparr>thresholds := th\<rparr>) this now date = format c g this now date"
  by (simp add: format_def Let_def format_units_pinned format_message_ignores_thresholds
      resolveRelativeUnits_ignores_thresholds split: option.split sum.split)

lemma RelativeFormat_truthy_units:
  assumes "(RelativeFormat g ls (Some \<lparr>opt_units = v\<rparr>) :: error + 'm formatter) = Inr this"
    and "truthy v"
  shows "in_PRIORITY v \<and> inst_units this = v"
proof (cases "resolveLocale g ls")
  case (Inl e)
  then show ?thesis using assms by (simp add: RelativeFormat_def)
next
  case (Inr loc)
  show ?thesis
  proof (cases "in_PRIORITY v")
    case True
    then show ?thesis using assms Inr by (auto simp: RelativeFormat_def isValidUnits_def)
  next
    case False
    then have "\<exists>e. isValidUnits v = Inl e"
      by (auto simp: isValidUnits_def Let_def split: js_value.splits)
    then show ?thesis using assms Inr by (auto simp: RelativeFormat_def)
  qed
qed

lemma format_pinned_result:
  assumes "truthy (inst_units this)" and "t \<noteq> 0"
  shows "format c g this now (Some t) =
     (let u = to_string (inst_units this);
          d = diff c now t u;
          pluralized =
            (case resolveMessage c g this u of
               Inl e \<Rightarrow> (Inl e, this)
             | Inr (m, this') \<Rightarrow>
                 (evaluate c m \<bar>d\<bar> (if d < 0 then ''past'' else ''future''), this'))
      in case resolveRelativeUnits g this d u of
           Inl e \<Rightarrow> (Inl e, this)
         | Inr None \<Rightarrow> pluralized
         | Inr (Some phrase) \<Rightarrow> if phrase \<noteq> [] then (Inr phrase, this) else pluralized)"
  unfolding format_def format_message_def Let_def format_units_pinned [OF assms(1)]
  using assms(2) by simp

text \<open>
  Claim C8. A formatter constructed with a units option that the constructor took and
  accepted holds a member of \<open>PRIORITY\<close> as its unit. \<open>resolvedOptions\<close> returns exactly
  that value, before and after any sequence of \<open>format\<close> calls. Every \<open>format\<close> call
  that passes the date check, whatever the diff report and the thresholds of its moment,
  reads the diff report at that unit, looks the exact phrase up for that unit and takes
  the compiled message of that unit: its result is the exact phrase, or the evaluation
  of that message with the magnitude and the direction of the diff of that unit. The
  selected unit is never used, so the result does not depend on the threshold table.
\<close>

theorem fixed_units_pinned:
  assumes "(RelativeFormat g ls (Some \<lparr>opt_units = v\<rparr>) :: error + 'm formatter) = Inr this"
    and "truthy v"
  shows "in_PRIORITY v
     \<and> resolvedOptions this = \<lparr>ro_locale = inst_locale this, ro_units = v\<rparr>
     \<and> (\<forall>c calls. resolvedOptions (format_calls c calls this) = resolvedOptions this)
     \<and> (\<forall>c calls g' d. format_units g' (format_calls c calls this) d = v)
     \<and> (\<forall>c calls c' g' th now date.
           format c' (g'\<lparr>thresholds := th\<rparr>) (format_calls c calls this) now date =
             format c' g' (format_calls c calls this) now date)
     \<and> (\<forall>c calls c' g' now t. t \<noteq> 0 \<longrightarrow>
           format c' g' (format_calls c calls this) now (Some t) =
             (let u = to_string v;
                  d = diff c' now t u;
                  pluralized =
                    (case resolveMessage c' g' (format_calls c calls this) u of
                       Inl e \<Rightarrow> (Inl e, format_calls c calls this)
                     | Inr (m, this') \<Rightarrow>
                         (evaluate c' m \<bar>d\<bar> (if d < 0 then ''past'' else ''future''), this'))
              in case resolveRelativeUnits g' (format_calls c calls this) d u of
                   Inl e \<Rightarrow> (Inl e, format_calls c calls this)
                 | Inr None \<Rightarrow> pluralized
                 | Inr (Some phrase) \<Rightarrow>
                     if phrase \<noteq> [] then (Inr phrase, format_calls c calls this)
                     else pluralized))"
proof -
  have v: "in_PRIORITY v" and u: "inst_units this = v"
    using RelativeFormat_truthy_units [OF assms] by simp_all
  have same: "inst_units (format_calls c calls this) = v" for c calls
    using u by (simp add: format_calls_frame)
  have pinned: "truthy (inst_units (format_calls c calls this))" for c calls
    using same assms(2) by simp
  have a: "resolvedOptions this = \<lparr>ro_locale = inst_locale this, ro_units = v\<rparr>"
    using u by (simp add: resolvedOptions_def)
  have b: "resolvedOptions (format_calls c calls this) = resolvedOptions this" for c calls
    by (simp add: resolvedOptions_def format_calls_frame)
  have d: "format_units g' (format_calls c calls this) d = v" for c calls g' d
    using pinned [of c calls] same by (simp add: format_units_pinned)
  have e: "format c' (g'\<lparr>thresholds := th\<rparr>) (format_calls c calls this) now date =
             format c' g' (format_calls c calls this) now date" for c calls c' g' th now date
    using pinned [of c calls] by (rule format_pinned_ignores_thresholds)
  have f: "format c' g' (format_calls c calls this) now (Some t) =
             (let u = to_string v;
                  d = diff c' now t u;
                  pluralized =
                    (case resolveMessage c' g' (format_calls c calls this) u of
                       Inl e \<Rightarrow> (Inl e, format_calls c calls this)
                     | Inr (m, this') \<Rightarrow>
                         (evaluate c' m \<bar>d\<bar> (if d < 0 then ''past'' else ''future''), this'))
              in case resolveRelativeUnits g' (format_calls c calls this) d u of
                   Inl e \<Rightarrow> (Inl e, format_calls c calls this)
                 | Inr None \<Rightarrow> pluralized
                 | Inr (Some phrase) \<Rightarrow>
                     if phrase \<noteq> [] then (Inr phrase, format_calls c calls this)
                     else pluralized)"
    if "t \<noteq> 0" for c calls c' g' now t
    using format_pinned_result [OF pinned [of c calls] that, of c' g' now]
    by (simp only: same)
  show ?thesis using v a b d e f by blast
qed

lemma example_constructs_day_formatter:
  "RelativeFormat example_global (LString ''en-US'') (Some \<lparr>opt_units = JStr ''day''\<rparr>) =
     Inr day_formatter"
  using example_resolves_en
  by (simp add: RelativeFormat_def isValidUnits_def PRIORITY_def day_formatter_def)

theorem fixed_units_pinned_witness:
  "resolvedOptions day_formatter = \<lparr>ro_locale = ''en'', ro_units = JStr ''day''\<rparr>
   \<and> resolvedOptions
        (format_calls example_collab
           [(example_global, 86400000, Some 1), (blank_global, 86400000, Some 86400000)]
           day_formatter) =
       \<lparr>ro_locale = ''en'', ro_units = JStr ''day''\<rparr>
   \<and> format_units (example_global\<lparr>thresholds := Map.empty\<rparr>)
        (format_calls example_collab [(example_global, 86400000, Some 1)] day_formatter)
        (\<lambda>u. 1000) = JStr ''day''
   \<and> format example_collab (example_global\<lparr>thresholds := [''day'' \<mapsto> 2]\<rparr>) day_formatter
        864000000 (Some 604800000) =
       (Inr ''3 past'',
        day_formatter\<lparr>inst_messages := [''day'' \<mapsto> (synthesize example_relativeTime, ''en'')]\<rparr>)
   \<and> format example_collab example_global day_formatter 864000000 (Some 777600000) =
       (Inr ''yesterday'', day_formatter)
   \<and> fst (format example_collab (example_global\<lparr>thresholds := [''day'' \<mapsto> 2]\<rparr>)
        (day_formatter\<lparr>inst_units := JUndefined\<rparr>) 864000000 (Some 604800000)) =
       Inl RuntimeTypeError"
proof -
  have t: "truthy (JStr ''day'')" by simp
  note p = fixed_units_pinned [OF example_constructs_day_formatter t]
  have a: "resolvedOptions day_formatter = \<lparr>ro_locale = ''en'', ro_units = JStr ''day''\<rparr>"
    using p by (simp add: day_formatter_def)
  have b: "resolvedOptions
        (format_calls example_collab
           [(example_global, 86400000, Some 1), (blank_global, 86400000, Some 86400000)]
           day_formatter) = resolvedOptions day_formatter"
    using p by blast
  have c: "format_units (example_global\<lparr>thresholds := Map.empty\<rparr>)
        (format_calls example_collab [(example_global, 86400000, Some 1)] day_formatter)
        (\<lambda>u. 1000) = JStr ''day''"
    using p by blast
  note f = p [THEN conjunct2, THEN conjunct2, THEN conjunct2, THEN conjunct2, THEN conjunct2,
      rule_format, where c = example_collab and calls = "[]" and c' = example_collab]
  have three: "int_to_string 3 = ''3''" by code_simp
  have d: "format example_collab (example_global\<lparr>thresholds := [''day'' \<mapsto> 2]\<rparr>) day_formatter
        864000000 (Some 604800000) =
       (Inr ''3 past'',
        day_formatter\<lparr>inst_messages := [''day'' \<mapsto> (synthesize example_relativeTime, ''en'')]\<rparr>)"
    using f [of 604800000 "example_global\<lparr>thresholds := [''day'' \<mapsto> 2]\<rparr>" 864000000]
    by (simp add: Let_def resolveRelativeUnits_def resolveMessage_def lookup_field_def
        example_global_def example_data_def example_day_def example_collab_def
        day_formatter_def three)
  have e: "format example_collab example_global day_formatter 864000000 (Some 777600000) =
       (Inr ''yesterday'', day_formatter)"
    using f [of 777600000 example_global 864000000]
    by (simp add: Let_def resolveRelativeUnits_def resolveMessage_def lookup_field_def
        example_global_def example_data_def example_day_def example_collab_def
        day_formatter_def)
  have g: "fst (format example_collab (example_global\<lparr>thresholds := [''day'' \<mapsto> 2]\<rparr>)
        (day_formatter\<lparr>inst_units := JUndefined\<rparr>) 864000000 (Some 604800000)) =
       Inl RuntimeTypeError"
    by code_simp
  show ?thesis using a b c d e g by simp
qed

text \<open>
  Claim C3, at the epoch. A date that is not a real instant (time value NaN) makes
  \<open>format\<close> fail with \<open>InvalidDate\<close> and leaves the formatter as it was; so does the time
  value 0, the instant 1970-01-01T00:00:00Z.
\<close>

theorem format_rejects_epoch:
  "format c g this now None = (Inl (InvalidDate msg_invalid_date), this)
   \<and> format c g this now (Some 0) = (Inl (InvalidDate msg_invalid_date), this)"
  by (simp add: format_def)

lemma plural_options_concat:
  "plural_options xs acc =
     acc @ concat (map (\<lambda>(i, phrase). '' '' @ i @ '' {'' @ replace_first ''{0}'' ''#'' phrase @ ''}'') xs)"
  by (induction xs arbitrary: acc) auto

lemma synthesize_text:
  "synthesize rt =
     ''{when, select, future {{0, plural, ''
       @ concat (map (\<lambda>(i, phrase). '' '' @ i @ '' {'' @ replace_first ''{0}'' ''#'' phrase @ ''}'')
           (rt_future rt))
       @ ''}}past {{0, plural, ''
       @ concat (map (\<lambda>(i, phrase). '' '' @ i @ '' {'' @ replace_first ''{0}'' ''#'' phrase @ ''}'')
           (rt_past rt))
       @ ''}}}''"
  by (simp add: synthesize_def plural_options_concat)

lemma resolveMessage_builds:
  "inst_messages this u = None \<Longrightarrow> lookup_field g this u = Inr (Some fld) \<Longrightarrow>
     f_relativeTime fld = Some rt \<Longrightarrow>
     resolveMessage c g this u =
       (case compile c (synthesize rt) (inst_locale this) of
          Inl e \<Rightarrow> Inl e
        | Inr m \<Rightarrow> Inr (m, this\<lparr>inst_messages := (inst_messages this)(u \<mapsto> m)\<rparr>))"
  by (simp add: resolveMessage_def)

text \<open>
  Claim C9. The first access for a unit (nothing in the cache under it) reads the
  catalog's field data of the unit, synthesizes the pattern from its \<open>future\<close> and \<open>past\<close>
  phrases, compiles it for the formatter's locale and, when the compiler succeeds, stores
  the compiled message under the unit and returns it; only that cache entry changes.
  An access for a unit the cache holds returns the cached message and leaves the
  formatter as it is, whatever the catalog and the compiler are. So once an access has
  returned a message, every later access for the unit, after any sequence of \<open>format\<close>
  calls, returns the same message without building, whatever the catalog holds by then
  (in particular after a registration of other data).
\<close>

theorem compiled_message_cached:
  "(inst_messages this u = None \<and> localeData g (inst_locale this) = Some data
      \<and> ld_fields data = Some fs \<and> fs u = Some fld \<and> f_relativeTime fld = Some rt \<longrightarrow>
      resolveMessage c g this u =
        (case compile c (synthesize rt) (inst_locale this) of
           Inl e \<Rightarrow> Inl e
         | Inr m \<Rightarrow> Inr (m, this\<lparr>inst_messages := (inst_messages this)(u \<mapsto> m)\<rparr>)))
   \<and> synthesize rt =
       ''{when, select, future {{0, plural, ''
         @ concat (map (\<lambda>(i, phrase). '' '' @ i @ '' {'' @ replace_first ''{0}'' ''#'' phrase @ ''}'')
             (rt_future rt))
         @ ''}}past {{0, plural, ''
         @ concat (map (\<lambda>(i, phrase). '' '' @ i @ '' {'' @ replace_first ''{0}'' ''#'' phrase @ ''}'')
             (rt_past rt))
         @ ''}}}''
   \<and> (inst_messages this u = Some m \<longrightarrow> (\<forall>c' g'. resolveMessage c' g' this u = Inr (m, this)))
   \<and> (resolveMessage c g this u = Inr (m, this') \<longrightarrow>
        inst_messages this' u = Some m
        \<and> (inst_messages this u = None \<longrightarrow>
             (\<exists>fld rt. lookup_field g this u = Inr (Some fld) \<and> f_relativeTime fld = Some rt
                \<and> compile c (synthesize rt) (inst_locale this) = Inr m)
             \<and> this' = this\<lparr>inst_messages := (inst_messages this)(u \<mapsto> m)\<rparr>)
        \<and> (\<forall>c' g'. resolveMessage c' g' this' u = Inr (m, this'))
        \<and> (\<forall>c' data g'. addLocaleData c' g data = Inr g' \<longrightarrow>
              resolveMessage c g' this' u = Inr (m, this'))
        \<and> (\<forall>c' calls c'' g'.
              resolveMessage c'' g' (format_calls c' calls this') u =
                Inr (m, format_calls c' calls this')))"
proof (intro conjI impI)
  assume "inst_messages this u = None \<and> localeData g (inst_locale this) = Some data
      \<and> ld_fields data = Some fs \<and> fs u = Some fld \<and> f_relativeTime fld = Some rt"
  then have "inst_messages this u = None \<and> lookup_field g this u = Inr (Some fld)
      \<and> f_relativeTime fld = Some rt"
    by (simp add: lookup_field_def)
  then show "resolveMessage c g this u =
        (case compile c (synthesize rt) (inst_locale this) of
           Inl e \<Rightarrow> Inl e
         | Inr m \<Rightarrow> Inr (m, this\<lparr>inst_messages := (inst_messages this)(u \<mapsto> m)\<rparr>))"
    using resolveMessage_builds [of this u g fld rt c] by blast
next
  show "synthesize rt =
       ''{when, select, future {{0, plural, ''
         @ concat (map (\<lambda>(i, phrase). '' '' @ i @ '' {'' @ replace_first ''{0}'' ''#'' phrase @ ''}'')
             (rt_future rt))
         @ ''}}past {{0, plural, ''
         @ concat (map (\<lambda>(i, phrase). '' '' @ i @ '' {'' @ replace_first ''{0}'' ''#'' phrase @ ''}'')
             (rt_past rt))
         @ ''}}}''"
    by (rule synthesize_text)
next
  assume "inst_messages this u = Some m"
  then show "\<forall>c' g'. resolveMessage c' g' this u = Inr (m, this)"
    by (simp add: resolveMessage_cached)
next
  assume r: "resolveMessage c g this u = Inr (m, this')"
  then show stored: "inst_messages this' u = Some m"
    by (rule resolveMessage_stores)
  show "\<exists>fld rt. lookup_field g this u = Inr (Some fld) \<and> f_relativeTime fld = Some rt
                \<and> compile c (synthesize rt) (inst_locale this) = Inr m"
    if "inst_messages this u = None"
    using resolveMessage_first_access [OF r that] by blast
  show "this' = this\<lparr>inst_messages := (inst_messages this)(u \<mapsto> m)\<rparr>"
    if "inst_messages this u = None"
    using resolveMessage_first_access [OF r that] by blast
  show "\<forall>c' g'. resolveMessage c' g' this' u = Inr (m, this')"
    using stored by (simp add: resolveMessage_cached)
  then show "\<forall>c' data g'. addLocaleData c' g data = Inr g' \<longrightarrow>
              resolveMessage c g' this' u = Inr (m, this')"
    by blast
  show "\<forall>c' calls c'' g'.
              resolveMessage c'' g' (format_calls c' calls this') u =
                Inr (m, format_calls c' calls this')"
    using format_calls_keep_entries [OF stored] by (simp add: resolveMessage_cached)
qed

lemma example_reregistration:
  "addLocaleData example_collab example_global (Some blank_data) =
     Inr (example_global\<lparr>availableLocales := [''en'', ''en''],
                         localeData := [''en'' \<mapsto> blank_data]\<rparr>)"
proof -
  have "first_subtag (toLowerCase ''en-US'') = ''en''" by code_simp
  then show ?thesis
    by (simp add: addLocaleData_def blank_data_def example_global_def example_collab_def Let_def)
qed

lemma example_refused_by_library:
  "addLocaleData (example_collab\<lparr>libraryAddLocaleData := (\<lambda>data. Some (MessageFormatError ''refused''))\<rparr>)
       example_global (Some blank_data) = Inl (MessageFormatError ''refused'')"
  by (simp add: addLocaleData_def blank_data_def)

theorem compiled_message_cached_witness:
  "resolveMessage example_collab example_global day_formatter ''day'' =
     Inr ((''{when, select, future {{0, plural,  one {in # day} other {in # days}}}past {{0, plural,  one {# day ago} other {# days ago}}}}'', ''en''),
          day_formatter\<lparr>inst_messages := [''day'' \<mapsto>
            (''{when, select, future {{0, plural,  one {in # day} other {in # days}}}past {{0, plural,  one {# day ago} other {# days ago}}}}'', ''en'')]\<rparr>)
   \<and> resolveMessage failing_collab example_global day_formatter ''day'' =
       Inl (MessageFormatError ''compile'')
   \<and> resolveMessage example_collab
       (example_global\<lparr>availableLocales := [''en'', ''en''], localeData := [''en'' \<mapsto> blank_data]\<rparr>)
       (day_formatter\<lparr>inst_messages := [''day'' \<mapsto> (synthesize example_relativeTime, ''en'')]\<rparr>)
       ''day'' =
     Inr ((synthesize example_relativeTime, ''en''),
          day_formatter\<lparr>inst_messages := [''day'' \<mapsto> (synthesize example_relativeTime, ''en'')]\<rparr>)
   \<and> resolveMessage failing_collab blank_global
       (day_formatter\<lparr>inst_messages := [''day'' \<mapsto> (synthesize example_relativeTime, ''en'')]\<rparr>)
       ''day'' =
     Inr ((synthesize example_relativeTime, ''en''),
          day_formatter\<lparr>inst_messages := [''day'' \<mapsto> (synthesize example_relativeTime, ''en'')]\<rparr>)
   \<and> synthesize \<lparr>rt_future = [(''other'', ''{0} of {0}'')], rt_past = []\<rparr> =
       ''{when, select, future {{0, plural,  other {# of {0}}}}past {{0, plural, }}}''"
proof -
  let ?this' = "day_formatter\<lparr>inst_messages := [''day'' \<mapsto> (synthesize example_relativeTime, ''en'')]\<rparr>"
  note t = compiled_message_cached [where this = day_formatter and u = "''day''"
      and g = example_global and data = example_data and fs = "[''day'' \<mapsto> example_day]"
      and fld = example_day and rt = example_relativeTime
      and m = "(synthesize example_relativeTime, ''en'')" and this' = ?this']
  have empty: "inst_messages day_formatter ''day'' = None"
    by (simp add: day_formatter_def)
  have fld: "localeData example_global (inst_locale day_formatter) = Some example_data
      \<and> ld_fields example_data = Some [''day'' \<mapsto> example_day]
      \<and> [''day'' \<mapsto> example_day] ''day'' = Some example_day"
    by (simp add: example_global_def example_data_def day_formatter_def)
  have rt: "f_relativeTime example_day = Some example_relativeTime"
    by (simp add: example_day_def)
  have loc: "inst_locale day_formatter = ''en''"
    by (simp add: day_formatter_def)
  have new: "day_formatter\<lparr>inst_messages := (inst_messages day_formatter)
      (''day'' \<mapsto> (synthesize example_relativeTime, ''en''))\<rparr> = ?this'"
    by (simp add: day_formatter_def)
  have first: "resolveMessage example_collab example_global day_formatter ''day'' =
      Inr ((synthesize example_relativeTime, ''en''), ?this')"
    using t [of example_collab, THEN conjunct1] empty fld rt loc new
    by (simp add: example_collab_def)
  have pat: "synthesize example_relativeTime =
      ''{when, select, future {{0, plural,  one {in # day} other {in # days}}}past {{0, plural,  one {# day ago} other {# days ago}}}}''"
    by (rule synthesize_example)
  have a: "resolveMessage example_collab example_global day_formatter ''day'' =
     Inr ((''{when, select, future {{0, plural,  one {in # day} other {in # days}}}past {{0, plural,  one {# day ago} other {# days ago}}}}'', ''en''),
          day_formatter\<lparr>inst_messages := [''day'' \<mapsto>
            (''{when, select, future {{0, plural,  one {in # day} other {in # days}}}past {{0, plural,  one {# day ago} other {# days ago}}}}'', ''en'')]\<rparr>)"
    using first by (simp only: pat)
  have b: "resolveMessage failing_collab example_global day_formatter ''day'' =
       Inl (MessageFormatError ''compile'')"
    using t [of failing_collab, THEN conjunct1] empty fld rt
    by (simp add: failing_collab_def)
  have later: "(\<forall>c' g'. resolveMessage c' g' ?this' ''day'' =
        Inr ((synthesize example_relativeTime, ''en''), ?this'))
      \<and> (\<forall>c' data g'. addLocaleData c' example_global data = Inr g' \<longrightarrow>
            resolveMessage example_collab g' ?this' ''day'' =
              Inr ((synthesize example_relativeTime, ''en''), ?this'))"
    using t [of example_collab, THEN conjunct2, THEN conjunct2, THEN conjunct2] first
    by blast
  have c: "resolveMessage example_collab
       (example_global\<lparr>availableLocales := [''en'', ''en''], localeData := [''en'' \<mapsto> blank_data]\<rparr>)
       ?this' ''day'' = Inr ((synthesize example_relativeTime, ''en''), ?this')"
    using later example_reregistration by blast
  have d: "resolveMessage failing_collab blank_global ?this' ''day'' =
      Inr ((synthesize example_relativeTime, ''en''), ?this')"
    using later by blast
  have "''{when, select, future {{0, plural, ''
         @ concat (map (\<lambda>(i, phrase). '' '' @ i @ '' {'' @ replace_first ''{0}'' ''#'' phrase @ ''}'')
             [(''other'', ''{0} of {0}'')])
         @ ''}}past {{0, plural, ''
         @ concat (map (\<lambda>(i, phrase). '' '' @ i @ '' {'' @ replace_first ''{0}'' ''#'' phrase @ ''}'')
             [])
         @ ''}}}'' = ''{when, select, future {{0, plural,  other {# of {0}}}}past {{0, plural, }}}''"
    by code_simp
  then have e: "synthesize \<lparr>rt_future = [(''other'', ''{0} of {0}'')], rt_past = []\<rparr> =
       ''{when, select, future {{0, plural,  other {# of {0}}}}past {{0, plural, }}}''"
    using compiled_message_cached
      [where rt = "\<lparr>rt_future = [(''other'', ''{0} of {0}'')], rt_past = []\<rparr>"
        and this = day_formatter and u = "''day''" and g = example_global
        and data = example_data and fs = "[''day'' \<mapsto> example_day]"
        and fld = example_day and c = example_collab
        and m = "(synthesize example_relativeTime, ''en'')" and this' = day_formatter,
        THEN conjunct2, THEN conjunct1]
    by simp
  show ?thesis using a b c d e by blast
qed

text \<open>
  Claim C2, as the code has it. For a date that passes the date check, when the field
  data of the formatter's locale for the unit of the call defines a non-empty phrase for
  the signed diff value of that unit, \<open>format\<close> returns that phrase verbatim and leaves
  the formatter, its cache of compiled messages included, as it was; the result is the
  same whatever the compiler and the evaluator of pluralized messages would do. When
  the phrase defined for the diff value is empty, or none is defined, the pluralized path
  is taken: the result is the evaluation of the unit's compiled message with the
  magnitude and the direction of the diff.
\<close>

theorem exact_phrase_bypasses_message:
  assumes "t \<noteq> 0"
    and "units = to_string (if truthy (inst_units this) then inst_units this
                            else selectUnits (thresholds g) (diff c now t))"
    and "localeData g (inst_locale this) = Some data \<and> ld_fields data = Some fs
         \<and> fs units = Some fld"
    and "f_relative fld = Some rel"
  shows "(\<forall>phrase. rel (diff c now t units) = Some phrase \<and> phrase \<noteq> [] \<longrightarrow>
            format c g this now (Some t) = (Inr phrase, this)
            \<and> (\<forall>cmp ev. format (c\<lparr>compile := cmp, evaluate := ev\<rparr>) g this now (Some t) =
                  (Inr phrase, this)))
     \<and> (rel (diff c now t units) = Some [] \<or> rel (diff c now t units) = None \<longrightarrow>
            format c g this now (Some t) =
              (case resolveMessage c g this units of
                 Inl e \<Rightarrow> (Inl e, this)
               | Inr (m, this') \<Rightarrow>
                   (evaluate c m \<bar>diff c now t units\<bar>
                      (if diff c now t units < 0 then ''past'' else ''future''), this')))"
proof -
  have sel: "units = to_string (format_units g this (diff c now t))"
    using assms(2) by (simp add: format_units_def)
  have look: "lookup_field g this units = Inr (Some fld)"
    using assms(3) by (simp add: lookup_field_def)
  show ?thesis
  proof (intro conjI allI impI)
  fix phrase
  assume p: "rel (diff c now t units) = Some phrase \<and> phrase \<noteq> []"
  then have r: "resolveRelativeUnits g this (diff c now t units) units = Inr (Some phrase)"
    using look assms(4) by (simp add: resolveRelativeUnits_def)
  show "format c g this now (Some t) = (Inr phrase, this)"
    using assms(1) p r by (simp add: format_def Let_def sel [symmetric])
  show "format (c\<lparr>compile := cmp, evaluate := ev\<rparr>) g this now (Some t) = (Inr phrase, this)"
    for cmp ev
    using assms(1) p r by (simp add: format_def Let_def sel [symmetric])
next
  assume "rel (diff c now t units) = Some [] \<or> rel (diff c now t units) = None"
  then have "resolveRelativeUnits g this (diff c now t units) units = Inr (Some [])
      \<or> resolveRelativeUnits g this (diff c now t units) units = Inr None"
    using look assms(4) by (auto simp: resolveRelativeUnits_def)
  then show "format c g this now (Some t) =
              (case resolveMessage c g this units of
                 Inl e \<Rightarrow> (Inl e, this)
               | Inr (m, this') \<Rightarrow>
                   (evaluate c m \<bar>diff c now t units\<bar>
                      (if diff c now t units < 0 then ''past'' else ''future''), this'))"
    using assms(1)
    by (auto simp: format_def Let_def sel [symmetric] format_message_def)
  qed
qed

theorem exact_phrase_bypasses_message_witness:
  "format example_collab example_global day_formatter 86400000 (Some 1) =
     (Inr ''yesterday'', day_formatter)
   \<and> format failing_collab example_global day_formatter 86400000 (Some 1) =
     (Inr ''yesterday'', day_formatter)
   \<and> format example_collab blank_global day_formatter 86400000 (Some 86400000) =
     (Inr ''0 future'',
      day_formatter\<lparr>inst_messages := [''day'' \<mapsto> (synthesize example_relativeTime, ''en'')]\<rparr>)"
proof -
  have d: "diff example_collab 86400000 1 ''day'' = - 1"
    by (simp add: example_collab_def)
  have u: "''day'' = to_string (if truthy (inst_units day_formatter) then inst_units day_formatter
      else selectUnits (thresholds example_global) (diff example_collab 86400000 1))"
    by (simp add: day_formatter_def)
  have l: "localeData example_global (inst_locale day_formatter) = Some example_data
      \<and> ld_fields example_data = Some [''day'' \<mapsto> example_day]
      \<and> [''day'' \<mapsto> example_day] ''day'' = Some example_day"
    by (simp add: example_global_def example_data_def day_formatter_def)
  have f: "f_relative example_day =
      Some [0 \<mapsto> ''today'', 1 \<mapsto> ''tomorrow'', - 1 \<mapsto> ''yesterday'']"
    by (simp add: example_day_def)
  have n: "(1::int) \<noteq> 0" by simp
  note t = exact_phrase_bypasses_message [OF n u l f, THEN conjunct1, rule_format,
      of "''yesterday''"]
  have a: "format example_collab example_global day_formatter 86400000 (Some 1) =
     (Inr ''yesterday'', day_formatter)"
    using t by (simp add: d)
  have b: "format failing_collab example_global day_formatter 86400000 (Some 1) =
     (Inr ''yesterday'', day_formatter)"
    using t [THEN conjunct2, rule_format,
        where cmp = "\<lambda>pattern loc. Inl (MessageFormatError ''compile'')"
          and ev = "\<lambda>msg n direction. Inl (MessageFormatError ''format'')"]
    by (simp add: failing_collab_def d)
  have d0: "diff example_collab 86400000 86400000 ''day'' = 0"
    by (simp add: example_collab_def)
  have u0: "''day'' = to_string (if truthy (inst_units day_formatter) then inst_units day_formatter
      else selectUnits (thresholds blank_global) (diff example_collab 86400000 86400000))"
    by (simp add: day_formatter_def)
  have l0: "localeData blank_global (inst_locale day_formatter) = Some blank_data
      \<and> ld_fields blank_data = Some [''day'' \<mapsto> example_day\<lparr>f_relative := Some [0 \<mapsto> []]\<rparr>]
      \<and> [''day'' \<mapsto> example_day\<lparr>f_relative := Some [0 \<mapsto> []]\<rparr>] ''day'' =
          Some (example_day\<lparr>f_relative := Some [0 \<mapsto> []]\<rparr>)"
    by (simp add: blank_global_def blank_data_def day_formatter_def)
  have f0: "f_relative (example_day\<lparr>f_relative := Some [0 \<mapsto> []]\<rparr>) = Some [0 \<mapsto> []]"
    by simp
  have n0: "(86400000::int) \<noteq> 0" by simp
  have zero: "int_to_string 0 = ''0''" by code_simp
  have c: "format example_collab blank_global day_formatter 86400000 (Some 86400000) =
     (Inr ''0 future'',
      day_formatter\<lparr>inst_messages := [''day'' \<mapsto> (synthesize example_relativeTime, ''en'')]\<rparr>)"
    using exact_phrase_bypasses_message [OF n0 u0 l0 f0, THEN conjunct2]
    by (simp add: d0 resolveMessage_def lookup_field_def blank_global_def blank_data_def
        example_day_def example_collab_def day_formatter_def zero)
  show ?thesis using a b c by blast
qed

theorem empty_phrase_counterexample:
  "resolveRelativeUnits blank_global day_formatter
       (diff example_collab 86400000 86400000 ''day'') ''day'' = Inr (Some [])
   \<and> fst (format example_collab blank_global day_formatter 86400000 (Some 86400000)) =
       Inr ''0 future''
   \<and> inst_messages (snd (format example_collab blank_global day_formatter 86400000 (Some 86400000)))
       ''day'' = Some (synthesize example_relativeTime, ''en'')
   \<and> format example_collab blank_global day_formatter 86400000 (Some 86400000) \<noteq>
       (Inr [], day_formatter)"
proof -
  have a: "resolveRelativeUnits blank_global day_formatter
       (diff example_collab 86400000 86400000 ''day'') ''day'' = Inr (Some [])"
    by code_simp
  have b: "fst (format example_collab blank_global day_formatter 86400000 (Some 86400000)) =
       Inr ''0 future''"
    by code_simp
  have c: "inst_messages (snd (format example_collab blank_global day_formatter 86400000 (Some 86400000)))
       ''day'' = Some (synthesize example_relativeTime, ''en'')"
    by code_simp
  have "fst (format example_collab blank_global day_formatter 86400000 (Some 86400000)) \<noteq>
      fst (Inr [] :: error + string, day_formatter)"
    by (simp add: b)
  then have d: "format example_collab blank_global day_formatter 86400000 (Some 86400000) \<noteq>
       (Inr [], day_formatter)"
    by metis
  show ?thesis using a b c d by blast
qed

end
